theory Spec2Isabelle
  imports Main
begin

section \<open>Python strings and bytes\<close>

text \<open>
  Header names, header values, paths and diagnostic messages are Python \<open>str\<close> values;
  bodies are \<open>bytes\<close>. Both are modelled as lists of \<^typ>\<open>char\<close>: a \<open>str\<close> element is a
  code point below 256 (what \<open>http.server\<close> and \<open>http.client\<close> produce when they decode
  header lines as ISO-8859-1), a \<open>bytes\<close> element is a byte. Case mapping is modelled
  on the ASCII letters (\<open>string.ascii_uppercase\<close> and \<open>string.ascii_lowercase\<close>), which is
  exact for HTTP field names (RFC 7230 tokens).
\<close>

type_synonym bytes = "char list"

definition ascii_uppercase :: string where
  "ascii_uppercase = ''ABCDEFGHIJKLMNOPQRSTUVWXYZ''"

definition ascii_lowercase :: string where
  "ascii_lowercase = ''abcdefghijklmnopqrstuvwxyz''"

definition lower_char :: "char \<Rightarrow> char" where
  "lower_char c =
     (case map_of (zip ascii_uppercase ascii_lowercase) c of Some l \<Rightarrow> l | None \<Rightarrow> c)"

definition upper_char :: "char \<Rightarrow> char" where
  "upper_char c =
     (case map_of (zip ascii_lowercase ascii_uppercase) c of Some u \<Rightarrow> u | None \<Rightarrow> c)"

text \<open>\<open>str.lower()\<close>.\<close>

definition lower :: "string \<Rightarrow> string" where
  "lower s = map lower_char s"

text \<open>\<open>str.capitalize()\<close>: first character upper-cased, the rest lower-cased.\<close>

definition capitalize :: "string \<Rightarrow> string" where
  "capitalize s = (case s of [] \<Rightarrow> [] | c # cs \<Rightarrow> upper_char c # map lower_char cs)"

text \<open>\<open>s.startswith(p)\<close>.\<close>

definition startswith :: "string \<Rightarrow> string \<Rightarrow> bool" where
  "startswith s p = (take (length p) s = p)"

text \<open>
  \<open>str(n)\<close> for a non-negative integer such as \<open>len(body)\<close>: its decimal digits
  (\<open>digit_char\<close> is applied to numbers below 10 only).
\<close>

definition digit_char :: "nat \<Rightarrow> char" where
  "digit_char d = ''0123456789'' ! d"

fun str_nat :: "nat \<Rightarrow> string" where
  "str_nat n = (if n < 10 then [digit_char n] else str_nat (n div 10) @ [digit_char (n mod 10)])"

declare str_nat.simps [simp del]

text \<open>\<open>str.encode()\<close>: UTF-8, for code points below 256.\<close>

definition encode_char :: "char \<Rightarrow> bytes" where
  "encode_char c =
     (let n = (of_char c :: nat) in
      if n < 128 then [c] else [char_of (192 + n div 64), char_of (128 + n mod 64)])"

definition encode :: "string \<Rightarrow> bytes" where
  "encode s = concat (map encode_char s)"

subsection \<open>\<open>int(s)\<close> on a string\<close>

text \<open>
  \<open>int\<close> strips surrounding white space (the code points 9 to 13, 32, 133 and 160),
  accepts one sign and then decimal digits, where single underscores may separate digits,
  and refuses more than 4300 digits (\<open>sys.get_int_max_str_digits()\<close>, Python 3.11).
  Anything else raises \<open>ValueError\<close>, modelled as \<open>None\<close>.
\<close>

definition is_space :: "char \<Rightarrow> bool" where
  "is_space c =
     (let n = (of_char c :: nat) in (9 \<le> n \<and> n \<le> 13) \<or> n = 32 \<or> n = 133 \<or> n = 160)"

definition int_max_str_digits :: nat where
  "int_max_str_digits = 4300"

definition is_digit :: "char \<Rightarrow> bool" where
  "is_digit c = (let n = (of_char c :: nat) in 48 \<le> n \<and> n \<le> 57)"

definition digit_val :: "char \<Rightarrow> nat" where
  "digit_val c = of_char c - 48"

definition strip :: "string \<Rightarrow> string" where
  "strip s = rev (dropWhile is_space (rev (dropWhile is_space s)))"

fun int_digits :: "nat \<Rightarrow> bool \<Rightarrow> string \<Rightarrow> nat option" where
  "int_digits acc prev_digit [] = (if prev_digit then Some acc else None)"
| "int_digits acc prev_digit (c # cs) =
     (if is_digit c then int_digits (10 * acc + digit_val c) True cs
      else if c = CHR ''_'' \<and> prev_digit then int_digits acc False cs
      else None)"

definition signed_digits :: "bool \<Rightarrow> string \<Rightarrow> int option" where
  "signed_digits negative cs =
     (if int_max_str_digits < length (filter is_digit cs) then None
      else map_option (\<lambda>n. if negative then - int n else int n) (int_digits 0 False cs))"

definition py_int :: "string \<Rightarrow> int option" where
  "py_int s =
     (case strip s of
        [] \<Rightarrow> None
      | c # cs \<Rightarrow>
          if c = CHR ''-'' then signed_digits True cs
          else if c = CHR ''+'' then signed_digits False cs
          else signed_digits False (c # cs))"

section \<open>Header containers\<close>

text \<open>
  \<open>self.headers\<close> and \<open>response.headers\<close> are \<open>http.client.HTTPMessage\<close> objects: the
  header lines in order, duplicates included. \<open>get\<close> and indexing compare names without
  regard to case and return the first match; \<open>items()\<close> returns every line.
\<close>

type_synonym message = "(string \<times> string) list"

definition msg_get :: "message \<Rightarrow> string \<Rightarrow> string option" where
  "msg_get hs name = map_option snd (find (\<lambda>kv. lower (fst kv) = lower name) hs)"

text \<open>
  A Python \<open>dict\<close> with string keys: an association list with distinct keys in insertion
  order. \<open>d[k] = v\<close> replaces the value of an existing key in place and appends a new key.
\<close>

type_synonym dict = "(string \<times> string) list"

fun dict_set :: "dict \<Rightarrow> string \<Rightarrow> string \<Rightarrow> dict" where
  "dict_set [] k v = [(k, v)]"
| "dict_set ((k', v') # d) k v =
     (if k' = k then (k, v) # d else (k', v') # dict_set d k v)"

text \<open>
  \<open>dict(self.headers)\<close>: \<open>dict\<close> reads the message through \<open>keys()\<close> and indexing, so every
  distinct spelling of a name becomes a key, and its value is the first header line whose
  name matches without regard to case. (Indexing a key of the message always finds a
  line; the \<open>None\<close> branch keeps the function total.)
\<close>

definition dict_of_message :: "message \<Rightarrow> dict" where
  "dict_of_message hs =
     fold (\<lambda>k d. case msg_get hs k of Some v \<Rightarrow> dict_set d k v | None \<Rightarrow> d) (map fst hs) []"

section \<open>The reverse proxy (\<open>src/server/reverse_proxy.py\<close>)\<close>

definition ASSET_SERVER_URL :: string where
  "ASSET_SERVER_URL = ''http://localhost:8002''"

definition LOG_SERVER_URL :: string where
  "LOG_SERVER_URL = ''http://localhost:8001''"

subsection \<open>The outbound request\<close>

text \<open>
  \<open>urllib.request.Request\<close>: the URL, the body, the method and the header dictionary.
  \<open>Request.add_header(key, val)\<close> is \<open>self.headers[key.capitalize()] = val\<close>.
\<close>

record request =
  full_url :: string
  data :: "bytes option"
  req_method :: string
  req_headers :: dict

definition Request :: "string \<Rightarrow> bytes option \<Rightarrow> string \<Rightarrow> request" where
  "Request url body method =
     \<lparr>full_url = url, data = body, req_method = method, req_headers = []\<rparr>"

definition add_header :: "request \<Rightarrow> string \<Rightarrow> string \<Rightarrow> request" where
  "add_header req key val = req\<lparr>req_headers := dict_set (req_headers req) (capitalize key) val\<rparr>"

text \<open>
  Lines 35 to 45 of \<open>_proxy_request\<close>: the request is created, every inbound header
  whose lower-cased name is not \<open>host\<close>, \<open>connection\<close> or \<open>content-length\<close> is added, and
  \<open>Content-Length\<close> is added when the body is truthy (neither \<open>None\<close> nor empty).
\<close>

definition forwarded :: "string \<Rightarrow> bool" where
  "forwarded header = (lower header \<notin> {''host'', ''connection'', ''content-length''})"

definition copy_headers :: "dict \<Rightarrow> request \<Rightarrow> request" where
  "copy_headers headers req =
     fold (\<lambda>hv r. if forwarded (fst hv) then add_header r (fst hv) (snd hv) else r) headers req"

definition prepare_request :: "string \<Rightarrow> string \<Rightarrow> bytes option \<Rightarrow> dict \<Rightarrow> request" where
  "prepare_request target_url method body headers =
     (let req = copy_headers headers (Request target_url body method) in
      case body of
        None \<Rightarrow> req
      | Some b \<Rightarrow> if b = [] then req else add_header req ''Content-Length'' (str_nat (length b)))"

subsection \<open>The backend call and the response written to the client\<close>

text \<open>
  What \<open>urllib.request.urlopen(req, timeout=10)\<close> followed by \<open>response.read()\<close> can do:
  return a response (status, header lines, body), raise \<open>HTTPError\<close> (code, reason, and the
  error response's header lines and body), or raise any other exception (its \<open>str\<close>).
\<close>

datatype urlopen_result =
    Response int message bytes
  | HTTPError int string message bytes
  | OtherError string

fun is_Response :: "urlopen_result \<Rightarrow> bool" where
  "is_Response (Response st hs b) = True"
| "is_Response _ = False"

text \<open>
  The environment of one request: the two strings \<open>send_response\<close> puts into the
  \<open>Server\<close> and \<open>Date\<close> headers, the largest byte string the host can allocate and,
  for the proxy, the backend as seen through \<open>urlopen\<close> (a function of the request and
  the timeout in seconds).
\<close>

record handler_env =
  version_string :: string
  date_time_string :: string
  alloc_limit :: int

record proxy_env = handler_env +
  urlopen :: "request \<Rightarrow> nat \<Rightarrow> urlopen_result"

record http_response =
  status :: int
  resp_headers :: message
  resp_body :: bytes

text \<open>
  \<open>BaseHTTPRequestHandler.send_response(code)\<close> writes the status line and the headers
  \<open>Server\<close> and \<open>Date\<close>; \<open>send_header\<close> appends one header line; \<open>wfile.write\<close> appends to
  the body.
\<close>

definition send_response :: "'a handler_env_scheme \<Rightarrow> int \<Rightarrow> http_response" where
  "send_response env code =
     \<lparr>status = code,
      resp_headers = [(''Server'', version_string env), (''Date'', date_time_string env)],
      resp_body = []\<rparr>"

definition send_header :: "http_response \<Rightarrow> string \<Rightarrow> string \<Rightarrow> http_response" where
  "send_header r keyword val = r\<lparr>resp_headers := resp_headers r @ [(keyword, val)]\<rparr>"

definition wfile_write :: "http_response \<Rightarrow> bytes \<Rightarrow> http_response" where
  "wfile_write r b = r\<lparr>resp_body := resp_body r @ b\<rparr>"

text \<open>Lines 56 to 58: the backend's header lines except \<open>Connection\<close>.\<close>

definition copy_response_headers :: "message \<Rightarrow> http_response \<Rightarrow> http_response" where
  "copy_response_headers hs r =
     fold (\<lambda>hv r'. if lower (fst hv) \<noteq> ''connection'' then send_header r' (fst hv) (snd hv) else r')
       hs r"

text \<open>
  \<open>_proxy_request\<close>. The result is the response written to the client and the list of
  backend calls issued, each with its timeout.
\<close>

definition proxy_request ::
  "proxy_env \<Rightarrow> string \<Rightarrow> string \<Rightarrow> bytes option \<Rightarrow> dict \<Rightarrow> http_response \<times> (request \<times> nat) list"
where
  "proxy_request env target_url method body headers =
     (let req = prepare_request target_url method body headers in
      (case urlopen env req 10 of
         Response st hs response_data \<Rightarrow>
           (let r = send_response env st;
                r = copy_response_headers hs r;
                r = send_header r ''Access-Control-Allow-Origin'' ''*'';
                r = send_header r ''Access-Control-Allow-Methods'' ''GET, POST, OPTIONS'';
                r = send_header r ''Access-Control-Allow-Headers'' ''Content-Type, Content-Encoding''
            in wfile_write r response_data)
       | HTTPError code reason ehs ebody \<Rightarrow>
           (let r = send_response env code;
                r = send_header r ''Content-Type'' ''text/plain'';
                r = send_header r ''Access-Control-Allow-Origin'' ''*''
            in wfile_write r (encode (''Proxy error: '' @ reason)))
       | OtherError msg \<Rightarrow>
           (let r = send_response env 500;
                r = send_header r ''Content-Type'' ''text/plain'';
                r = send_header r ''Access-Control-Allow-Origin'' ''*''
            in wfile_write r (encode (''Proxy error: '' @ msg))),
       [(req, 10)]))"

subsection \<open>The handlers\<close>

text \<open>
  The request as the handler sees it: the method, \<open>self.path\<close>, \<open>self.headers\<close> and the
  bytes the client sends after the header block (\<open>self.rfile\<close>).
\<close>

datatype http_method = GET | POST | PUT | DELETE | OPTIONS

record inbound =
  command :: http_method
  path :: string
  in_headers :: message
  rfile :: bytes

datatype py_exception =
    ValueError | OverflowError | MemoryError | BadGzipFile | EOFError | ZlibError
  | UnicodeDecodeError | UnicodeEncodeError | RecursionError | AttributeError | TypeError
  | OSError

text \<open>
  \<open>self.rfile.read(n)\<close> on the buffered reader of the connection, \<open>b\<close> being the bytes the
  client sends before it closes: \<open>n\<close> bytes, or all of them when fewer arrive or when \<open>n\<close>
  is -1. The reader raises \<open>ValueError\<close> for a length below -1 and, since it allocates
  \<open>n\<close> bytes before it reads, \<open>OverflowError\<close> from \<open>2^63 - 1\<close> on and \<open>MemoryError\<close> for a
  length the host cannot allocate.
\<close>

definition rfile_read :: "'a handler_env_scheme \<Rightarrow> bytes \<Rightarrow> int \<Rightarrow> py_exception + bytes" where
  "rfile_read env b n =
     (if n < - 1 then Inl ValueError
      else if n = - 1 then Inr b
      else if 9223372036854775807 \<le> n then Inl OverflowError
      else if alloc_limit env < n then Inl MemoryError
      else Inr (take (nat n) b))"

text \<open>
  \<open>int(self.headers.get('Content-Length', 0))\<close>: 0 when the header is absent, otherwise
  \<open>int\<close> of the first value, which raises \<open>ValueError\<close> (here \<open>None\<close>) on a malformed one.
\<close>

definition parse_content_length :: "inbound \<Rightarrow> int option" where
  "parse_content_length r =
     (case msg_get (in_headers r) ''Content-Length'' of None \<Rightarrow> Some 0 | Some s \<Rightarrow> py_int s)"

text \<open>
  \<open>self.rfile.read(content_length) if content_length > 0 else None\<close>. The read is
  outside every \<open>try\<close>, so its exception leaves the handler.
\<close>

definition read_body :: "proxy_env \<Rightarrow> inbound \<Rightarrow> int \<Rightarrow> py_exception + bytes option" where
  "read_body env r n =
     (if n > 0
      then (case rfile_read env (rfile r) n of Inl e \<Rightarrow> Inl e | Inr b \<Rightarrow> Inr (Some b))
      else Inr None)"

text \<open>
  A handler either raises (\<open>Inl\<close>: nothing has been written to the client) or returns the
  response it wrote together with the backend calls it issued.
\<close>

type_synonym handled = "py_exception + http_response \<times> (request \<times> nat) list"

definition do_GET :: "proxy_env \<Rightarrow> inbound \<Rightarrow> handled" where
  "do_GET env r =
     (if path r = ''/health'' \<or> startswith (path r) ''/health''
      then Inr (proxy_request env (LOG_SERVER_URL @ path r) ''GET'' None
                  (dict_of_message (in_headers r)))
      else Inr (proxy_request env (ASSET_SERVER_URL @ path r) ''GET'' None
                  (dict_of_message (in_headers r))))"

definition do_POST :: "proxy_env \<Rightarrow> inbound \<Rightarrow> handled" where
  "do_POST env r =
     (if path r = ''/logs'' \<or> startswith (path r) ''/logs''
      then (case parse_content_length r of
              None \<Rightarrow> Inl ValueError
            | Some n \<Rightarrow>
                (case read_body env r n of
                   Inl e \<Rightarrow> Inl e
                 | Inr body \<Rightarrow>
                     Inr (proxy_request env (LOG_SERVER_URL @ path r) ''POST'' body
                            (dict_of_message (in_headers r)))))
      else (case parse_content_length r of
              None \<Rightarrow> Inl ValueError
            | Some n \<Rightarrow>
                (case read_body env r n of
                   Inl e \<Rightarrow> Inl e
                 | Inr body \<Rightarrow>
                     Inr (proxy_request env (ASSET_SERVER_URL @ path r) ''POST'' body
                            (dict_of_message (in_headers r))))))"

definition do_OPTIONS :: "proxy_env \<Rightarrow> inbound \<Rightarrow> handled" where
  "do_OPTIONS env r =
     (let w = send_response env 200;
          w = send_header w ''Access-Control-Allow-Origin'' ''*'';
          w = send_header w ''Access-Control-Allow-Methods'' ''GET, POST, OPTIONS'';
          w = send_header w ''Access-Control-Allow-Headers'' ''Content-Type, Content-Encoding''
      in Inr (w, []))"

definition do_PUT :: "proxy_env \<Rightarrow> inbound \<Rightarrow> handled" where
  "do_PUT env r =
     (case parse_content_length r of
        None \<Rightarrow> Inl ValueError
      | Some n \<Rightarrow>
          (case read_body env r n of
             Inl e \<Rightarrow> Inl e
           | Inr body \<Rightarrow>
               Inr (proxy_request env (ASSET_SERVER_URL @ path r) ''PUT'' body
                      (dict_of_message (in_headers r)))))"

definition do_DELETE :: "proxy_env \<Rightarrow> inbound \<Rightarrow> handled" where
  "do_DELETE env r =
     Inr (proxy_request env (ASSET_SERVER_URL @ path r) ''DELETE'' None
            (dict_of_message (in_headers r)))"

text \<open>
  \<open>BaseHTTPRequestHandler\<close> calls the method \<open>do_\<close> followed by the request's command;
  these five are the ones \<open>ReverseProxyHandler\<close> defines.
\<close>

definition handle :: "proxy_env \<Rightarrow> inbound \<Rightarrow> handled" where
  "handle env r =
     (case command r of
        GET \<Rightarrow> do_GET env r
      | POST \<Rightarrow> do_POST env r
      | PUT \<Rightarrow> do_PUT env r
      | DELETE \<Rightarrow> do_DELETE env r
      | OPTIONS \<Rightarrow> do_OPTIONS env r)"


subsection \<open>The time a backend call takes\<close>





section \<open>The log sink (\<open>src/server/log_server.py\<close>)\<close>

text \<open>
  The text the sink reads from a body is arbitrary: a \<open>str\<close> is modelled here as the list
  of its code points, and \<open>py s\<close> is the \<open>str\<close> of an ASCII literal \<open>s\<close> of the source.
  Encoding a \<open>str\<close> as UTF-8, which is what writing to a file opened with
  \<open>encoding='utf-8'\<close> does, raises \<open>UnicodeEncodeError\<close> exactly when the \<open>str\<close> holds a
  surrogate code point (\<open>json.loads\<close> accepts a lone surrogate escape).
\<close>

type_synonym pystr = "nat list"

definition py :: "string \<Rightarrow> pystr" where
  "py s = map of_char s"

definition is_surrogate :: "nat \<Rightarrow> bool" where
  "is_surrogate n = (55296 \<le> n \<and> n \<le> 57343)"

definition encodable :: "pystr \<Rightarrow> bool" where
  "encodable s = (filter is_surrogate s = [])"

text \<open>
  The values \<open>json.loads\<close> returns: \<open>None\<close>, \<open>bool\<close>, \<open>int\<close>, \<open>float\<close> (kept as its
  literal), \<open>str\<close>, \<open>list\<close> and \<open>dict\<close> (distinct keys in order).
\<close>

datatype json =
    JNull
  | JBool bool
  | JInt int
  | JFloat string
  | JStr pystr
  | JArr "json list"
  | JObj "(pystr \<times> json) list"

text \<open>
  What \<open>json.loads\<close> can do: return a value, raise \<open>JSONDecodeError\<close>, or raise another
  exception (\<open>RecursionError\<close> on deep nesting, a plain \<open>ValueError\<close> on an integer
  literal of more than 4300 digits).
\<close>

datatype loads_result = Loaded json | JSONDecodeError | LoadsRaised py_exception

text \<open>
  \<open>x.get(key, default)\<close>: defined on a \<open>dict\<close> only; on any other value the attribute
  lookup raises \<open>AttributeError\<close> (here \<open>None\<close>).
\<close>

fun py_get :: "json \<Rightarrow> pystr \<Rightarrow> json \<Rightarrow> json option" where
  "py_get (JObj kvs) key dflt = Some (case map_of kvs key of Some v \<Rightarrow> v | None \<Rightarrow> dflt)"
| "py_get _ key dflt = None"

text \<open>
  \<open>for log_entry in logs\<close>: a list yields its elements, a \<open>dict\<close> its keys, a \<open>str\<close> its
  characters; the other values are not iterable and raise \<open>TypeError\<close> (here \<open>None\<close>).
  \<open>len(logs)\<close> is the number of elements yielded.
\<close>

fun py_iter :: "json \<Rightarrow> json list option" where
  "py_iter (JArr xs) = Some xs"
| "py_iter (JObj kvs) = Some (map (\<lambda>kv. JStr (fst kv)) kvs)"
| "py_iter (JStr s) = Some (map (\<lambda>c. JStr [c]) s)"
| "py_iter _ = None"

fun is_dict :: "json \<Rightarrow> bool" where
  "is_dict (JObj kvs) = True"
| "is_dict _ = False"

text \<open>
  The environment of the log sink. The standard library's codecs are parameters:
  \<open>gzip.decompress\<close> (the bytes, or the exception it raises: \<open>BadGzipFile\<close>, \<open>EOFError\<close>
  or \<open>zlib.error\<close>), \<open>bytes.decode('utf-8')\<close> (\<open>None\<close>: \<open>UnicodeDecodeError\<close>),
  \<open>json.loads\<close>, \<open>json.dumps(v)\<close> (used on a \<open>dict\<close> of strings and an integer only, where
  its output is ASCII and it cannot raise), \<open>json.dumps(v, ensure_ascii=False)\<close> (\<open>None\<close>:
  it raises \<open>RecursionError\<close>), and \<open>str\<close> of a value that is not a string (as an
  f-string formats it) and of an exception.
  \<open>now_isoformat\<close> and \<open>now_Ymd\<close> are \<open>datetime.now().isoformat()\<close> and
  \<open>datetime.now().strftime('%Y%m%d')\<close>: \<open>datetime.now()\<close> without a time zone is the
  host's local time. \<open>utc_Ymd\<close> is the date in UTC at the same moment, which the code
  never reads. \<open>open_append\<close> is the exception \<open>open(log_file, 'a', encoding='utf-8')\<close>
  raises for the named file, \<open>None\<close> when the file is opened; \<open>print_line\<close> is the exception
  \<open>print\<close> of a line to the standard output raises (the stream is closed, or its encoding
  lacks a character of the line), \<open>None\<close> when the line is printed. Writes of encoded
  text to the opened file, to the client and to the standard error stream, which
  replaces what it cannot encode, are taken to succeed, and a line ends with \<open>\n\<close> in the
  file as on a POSIX host.
\<close>

record log_env = handler_env +
  gzip_decompress :: "bytes \<Rightarrow> py_exception + bytes"
  decode_utf8 :: "bytes \<Rightarrow> pystr option"
  json_loads :: "pystr \<Rightarrow> loads_result"
  json_dumps :: "json \<Rightarrow> string"
  json_dumps_unicode :: "json \<Rightarrow> pystr option"
  py_str :: "json \<Rightarrow> pystr"
  exc_str :: "py_exception \<Rightarrow> pystr"
  now_isoformat :: pystr
  now_Ymd :: pystr
  utc_Ymd :: pystr
  open_append :: "pystr \<Rightarrow> py_exception option"
  print_line :: "pystr \<Rightarrow> py_exception option"

text \<open>
  The files under \<open>LOG_DIR\<close>, by the name joined to \<open>LOG_DIR\<close>: the text of each file that
  exists.
\<close>

type_synonym files = "pystr \<rightharpoonup> pystr"

record log_request =
  log_path :: string
  log_headers :: message
  log_rfile :: bytes

text \<open>\<open>f"{v}"\<close>: a string as it is, any other value through \<open>str\<close>.\<close>

definition fmt :: "log_env \<Rightarrow> json \<Rightarrow> pystr" where
  "fmt env v = (case v of JStr s \<Rightarrow> s | _ \<Rightarrow> py_str env v)"

text \<open>Line 72: \<open>f"{device_id}_{datetime.now().strftime('%Y%m%d')}.log"\<close>.\<close>

definition log_file_name :: "log_env \<Rightarrow> json \<Rightarrow> pystr" where
  "log_file_name env device_id = fmt env device_id @ py ''_'' @ now_Ymd env @ py ''.log''"

text \<open>\<open>d.get(key, default)\<close> on the items of a \<open>dict\<close>.\<close>

definition dict_get :: "(pystr \<times> json) list \<Rightarrow> pystr \<Rightarrow> json \<Rightarrow> json" where
  "dict_get kvs key dflt = (case map_of kvs key of Some v \<Rightarrow> v | None \<Rightarrow> dflt)"

text \<open>Lines 76 to 82: the \<open>dict\<close> serialised for one entry, from the entry's items.\<close>

definition entry_record :: "json \<Rightarrow> pystr \<Rightarrow> (pystr \<times> json) list \<Rightarrow> json" where
  "entry_record device_id timestamp kvs =
     JObj [(py ''timestamp'', dict_get kvs (py ''timestamp'') (JStr timestamp)),
           (py ''level'', dict_get kvs (py ''level'') (JStr (py ''DEBUG''))),
           (py ''component'', dict_get kvs (py ''component'') (JStr [])),
           (py ''message'', dict_get kvs (py ''message'') (JStr [])),
           (py ''device_id'', device_id)]"

text \<open>
  Lines 76 to 83, for one entry: the text written to the file, or the exception raised.
  \<open>log_entry.get\<close> raises \<open>AttributeError\<close> when the entry is not a \<open>dict\<close>, \<open>json.dumps\<close> can
  raise, and \<open>f.write\<close> raises \<open>UnicodeEncodeError\<close> when the line cannot be encoded.
\<close>

definition log_line :: "log_env \<Rightarrow> json \<Rightarrow> pystr \<Rightarrow> json \<Rightarrow> py_exception + pystr" where
  "log_line env device_id timestamp log_entry =
     (case log_entry of
        JObj kvs \<Rightarrow>
          (case json_dumps_unicode env (entry_record device_id timestamp kvs) of
             None \<Rightarrow> Inl RecursionError
           | Some line \<Rightarrow>
               if encodable (line @ [10]) then Inr (line @ [10])
               else Inl UnicodeEncodeError)
      | _ \<Rightarrow> Inl AttributeError)"

text \<open>
  Lines 75 to 83: the loop writes a line per entry and stops at the first entry that
  raises; what was written before stays in the file. The result is the text written and
  the exception, if any.
\<close>

fun write_lines ::
  "(json \<Rightarrow> py_exception + pystr) \<Rightarrow> json list \<Rightarrow> pystr \<times> py_exception option" where
  "write_lines f [] = ([], None)"
| "write_lines f (e # es) =
     (case f e of
        Inl x \<Rightarrow> ([], Some x)
      | Inr l \<Rightarrow> (case write_lines f es of (t, x) \<Rightarrow> (l @ t, x)))"

text \<open>
  Lines 86 to 90: the line printed to the console for one entry, and the loop that prints
  them; it raises when a \<open>print\<close> fails.
\<close>

definition console_line :: "log_env \<Rightarrow> (pystr \<times> json) list \<Rightarrow> pystr" where
  "console_line env kvs =
     py ''['' @ fmt env (dict_get kvs (py ''level'') (JStr (py ''DEBUG'')))
     @ py ''] ['' @ fmt env (dict_get kvs (py ''component'') (JStr []))
     @ py ''] '' @ fmt env (dict_get kvs (py ''message'') (JStr []))"

fun print_lines :: "log_env \<Rightarrow> json list \<Rightarrow> py_exception option" where
  "print_lines env [] = None"
| "print_lines env (e # es) =
     (case e of
        JObj kvs \<Rightarrow>
          (case print_line env (console_line env kvs) of
             None \<Rightarrow> print_lines env es
           | Some x \<Rightarrow> Some x)
      | _ \<Rightarrow> Some AttributeError)"

definition file_text :: "files \<Rightarrow> pystr \<Rightarrow> pystr" where
  "file_text fs name = (case fs name of None \<Rightarrow> [] | Some t \<Rightarrow> t)"

text \<open>
  Lines 66 to 97, inside the \<open>try\<close>: the exception raised or the response written, and
  the files afterwards.
\<close>

definition process_logs ::
  "log_env \<Rightarrow> files \<Rightarrow> json \<Rightarrow> (py_exception + http_response) \<times> files" where
  "process_logs env fs log_data =
     (case py_get log_data (py ''device_id'') (JStr (py ''unknown'')) of
        None \<Rightarrow> (Inl AttributeError, fs)
      | Some device_id \<Rightarrow>
     (case py_get log_data (py ''logs'') (JArr []) of
        None \<Rightarrow> (Inl AttributeError, fs)
      | Some logs \<Rightarrow>
     (let timestamp = now_isoformat env;
          log_file = log_file_name env device_id
      in case open_append env log_file of
           Some e \<Rightarrow> (Inl e, fs)
         | None \<Rightarrow>
           (case py_iter logs of
              None \<Rightarrow> (Inl TypeError, fs(log_file \<mapsto> file_text fs log_file))
            | Some entries \<Rightarrow>
                (case write_lines (log_line env device_id timestamp) entries of
                   (written, raised) \<Rightarrow>
                     (let fs' = fs(log_file \<mapsto> file_text fs log_file @ written)
                      in case raised of
                           Some e \<Rightarrow> (Inl e, fs')
                         | None \<Rightarrow>
                             (case print_lines env entries of
                                Some e \<Rightarrow> (Inl e, fs')
                              | None \<Rightarrow>
                                  (let w = send_response env 200;
                                       w = send_header w ''Content-Type'' ''application/json'';
                                       w = send_header w ''Access-Control-Allow-Origin'' ''*''
                                   in (Inr (wfile_write w
                                         (encode (json_dumps env
                                            (JObj [(py ''status'', JStr (py ''ok'')),
                                                   (py ''received'',
                                                    JInt (int (length entries)))])))),
                                       fs')))))))))"

text \<open>
  Lines 43 and 44: \<open>int(self.headers.get('Content-Length', 0))\<close> (\<open>None\<close>: \<open>ValueError\<close>)
  and \<open>self.headers.get('Content-Encoding', '')\<close>.
\<close>

definition log_content_length :: "log_request \<Rightarrow> int option" where
  "log_content_length r =
     (case msg_get (log_headers r) ''Content-Length'' of None \<Rightarrow> Some 0 | Some s \<Rightarrow> py_int s)"

definition log_content_encoding :: "log_request \<Rightarrow> string" where
  "log_content_encoding r =
     (case msg_get (log_headers r) ''Content-Encoding'' of None \<Rightarrow> [] | Some v \<Rightarrow> v)"

text \<open>
  Lines 51 to 59, up to the argument of \<open>json.loads\<close>: the body is read, decompressed when
  the encoding is \<open>gzip\<close>, and decoded as UTF-8.
\<close>

definition read_text :: "log_env \<Rightarrow> log_request \<Rightarrow> int \<Rightarrow> py_exception + pystr" where
  "read_text env r content_length =
     (case rfile_read env (log_rfile r) content_length of
        Inl e \<Rightarrow> Inl e
      | Inr body \<Rightarrow>
          (case (if log_content_encoding r = ''gzip'' then gzip_decompress env body
                 else Inr body) of
             Inl e \<Rightarrow> Inl e
           | Inr body \<Rightarrow>
               (case decode_utf8 env body of
                  None \<Rightarrow> Inl UnicodeDecodeError
                | Some text \<Rightarrow> Inr text)))"

text \<open>Lines 43 to 97: the body of the \<open>try\<close> in \<open>_handle_logs\<close>.\<close>

definition try_handle_logs ::
  "log_env \<Rightarrow> files \<Rightarrow> log_request \<Rightarrow> (py_exception + http_response) \<times> files" where
  "try_handle_logs env fs r =
     (case log_content_length r of
        None \<Rightarrow> (Inl ValueError, fs)
      | Some content_length \<Rightarrow>
          if content_length = 0 then (Inr (send_response env 400), fs)
          else
            (case read_text env r content_length of
               Inl e \<Rightarrow> (Inl e, fs)
             | Inr text \<Rightarrow>
                 (case json_loads env text of
                    JSONDecodeError \<Rightarrow> (Inr (send_response env 400), fs)
                  | LoadsRaised e \<Rightarrow> (Inl e, fs)
                  | Loaded log_data \<Rightarrow> process_logs env fs log_data)))"

text \<open>
  \<open>_handle_logs\<close>: an exception of the \<open>try\<close> body is answered with status 500 and the
  body \<open>{"status": "error", "message": str(e)}\<close>.
\<close>

definition handle_logs :: "log_env \<Rightarrow> files \<Rightarrow> log_request \<Rightarrow> http_response \<times> files" where
  "handle_logs env fs r =
     (case try_handle_logs env fs r of
        (Inr w, fs') \<Rightarrow> (w, fs')
      | (Inl e, fs') \<Rightarrow>
          (wfile_write (send_response env 500)
             (encode (json_dumps env
                (JObj [(py ''status'', JStr (py ''error'')),
                       (py ''message'', JStr (exc_str env e))]))),
           fs'))"

text \<open>\<open>LogRequestHandler.do_POST\<close>.\<close>

definition log_do_POST :: "log_env \<Rightarrow> files \<Rightarrow> log_request \<Rightarrow> http_response \<times> files" where
  "log_do_POST env fs r =
     (if log_path r = ''/logs'' \<or> log_path r = ''/'' then handle_logs env fs r
      else (send_response env 404, fs))"

section \<open>Concrete requests and environments\<close>

text \<open>
  Inputs at which the theorems below are evaluated. \<open>backend out\<close> is an environment whose
  backend answers every call with \<open>out\<close>.
\<close>

definition backend :: "urlopen_result \<Rightarrow> proxy_env" where
  "backend out =
     \<lparr>version_string = ''BaseHTTP/0.6 Python/3.11.4'',
      date_time_string = ''Thu, 02 Jan 2025 00:30:00 GMT'',
      alloc_limit = 1073741824,
      urlopen = (\<lambda>req timeout. out)\<rparr>"

text \<open>A response of the asset server, with the headers \<open>serve_assets.py\<close> adds.\<close>

definition asset_found :: urlopen_result where
  "asset_found =
     Response 200
       [(''Server'', ''SimpleHTTP/0.6 Python/3.11.4''),
        (''Content-type'', ''application/octet-stream''),
        (''Content-Length'', ''5''),
        (''Connection'', ''close''),
        (''Access-Control-Allow-Origin'', ''*''),
        (''Access-Control-Allow-Methods'', ''GET, OPTIONS''),
        (''Access-Control-Allow-Headers'', ''Content-Type''),
        (''Cache-Control'', ''no-cache, no-store, must-revalidate'')]
       ''hello''"

definition asset_missing :: urlopen_result where
  "asset_missing =
     HTTPError 404 ''File not found''
       [(''Content-Type'', ''text/html;charset=utf-8''), (''Content-Length'', ''9'')]
       ''Not here.''"

definition backend_down :: urlopen_result where
  "backend_down = OtherError ''<urlopen error [Errno 111] Connection refused>''"


definition put_logs :: inbound where
  "put_logs =
     \<lparr>command = PUT, path = ''/logs'',
      in_headers = [(''Host'', ''localhost:8000''), (''Content-Length'', ''2'')],
      rfile = ''{}''\<rparr>"

definition options_logs :: inbound where
  "options_logs =
     \<lparr>command = OPTIONS, path = ''/logs'',
      in_headers = [(''Host'', ''localhost:8000''), (''Origin'', ''http://app.example'')],
      rfile = []\<rparr>"

definition post_tagged :: inbound where
  "post_tagged =
     \<lparr>command = POST, path = ''/logs'',
      in_headers =
        [(''Host'', ''evil.example''), (''Connection'', ''keep-alive''),
         (''Content-Length'', ''2''), (''X-Tag'', ''a''), (''X-Tag'', ''b'')],
      rfile = ''{}''\<rparr>"

definition post_bad_length :: inbound where
  "post_bad_length =
     \<lparr>command = POST, path = ''/logs'',
      in_headers = [(''Host'', ''localhost:8000''), (''Content-Length'', ''abc'')],
      rfile = ''{}''\<rparr>"

text \<open>The response a handler wrote, and the URLs of the backend calls it issued.\<close>

definition response_of :: "handled \<Rightarrow> http_response option" where
  "response_of h = (case h of Inl e \<Rightarrow> None | Inr wc \<Rightarrow> Some (fst wc))"

definition backend_urls :: "handled \<Rightarrow> string list" where
  "backend_urls h = (case h of Inl e \<Rightarrow> [] | Inr wc \<Rightarrow> map (\<lambda>c. full_url (fst c)) (snd wc))"

text \<open>The requests a handler sent to a backend.\<close>

definition requests_of :: "handled \<Rightarrow> request list" where
  "requests_of h = (case h of Inl e \<Rightarrow> [] | Inr wc \<Rightarrow> map fst (snd wc))"

text \<open>The request \<open>post_tagged\<close> is forwarded as.\<close>

definition post_tagged_forwarded :: request where
  "post_tagged_forwarded =
     \<lparr>full_url = ''http://localhost:8001/logs'', data = Some ''{}'', req_method = ''POST'',
      req_headers = [(''X-tag'', ''a''), (''Content-length'', ''2'')]\<rparr>"





text \<open>
  An environment of the log sink on a host two hours ahead of UTC, at 01:30 local time
  on 2 January 2025 (23:30 on 1 January in UTC). Its \<open>json.loads\<close> and \<open>json.dumps\<close> are
  the standard functions at the texts and values of the requests below, and its decoder
  is UTF-8 on ASCII bytes.
\<close>

definition batch_text :: string where
  \<open>batch_text =
     ''{"device_id":"dev1","logs":[{"level":"INFO","component":"ui","message":"started"}]}''\<close>

definition batch_line :: string where
  \<open>batch_line =
     ''{"timestamp": "2025-01-02T01:30:00.000000", "level": "INFO", "component": "ui", "message": "started", "device_id": "dev1"}''\<close>

definition null_logs_text :: string where
  \<open>null_logs_text = ''{"logs": null}''\<close>

definition bare_text :: string where
  \<open>bare_text = ''{"logs":[{}]}''\<close>

definition bare_line :: string where
  \<open>bare_line =
     ''{"timestamp": "2025-01-02T01:30:00.000000", "level": "DEBUG", "component": "", "message": "", "device_id": "unknown"}''\<close>

definition is_ascii :: "char \<Rightarrow> bool" where
  "is_ascii c = ((of_char c :: nat) < 128)"

definition sink_decode :: "bytes \<Rightarrow> pystr option" where
  "sink_decode b = (if filter (\<lambda>c. \<not> is_ascii c) b = [] then Some (py b) else None)"

definition sink_loads :: "pystr \<Rightarrow> loads_result" where
  "sink_loads text =
     (if text = py batch_text
      then Loaded (JObj [(py ''device_id'', JStr (py ''dev1'')),
                         (py ''logs'', JArr [JObj [(py ''level'', JStr (py ''INFO'')),
                                                   (py ''component'', JStr (py ''ui'')),
                                                   (py ''message'', JStr (py ''started''))]])])
      else if text = py ''[]'' then Loaded (JArr [])
      else if text = py ''{}'' then Loaded (JObj [])
      else if text = py null_logs_text then Loaded (JObj [(py ''logs'', JNull)])
      else if text = py bare_text then Loaded (JObj [(py ''logs'', JArr [JObj []])])
      else JSONDecodeError)"

definition sink_dumps :: "json \<Rightarrow> string" where
  \<open>sink_dumps v =
     (if v = JObj [(py ''status'', JStr (py ''ok'')), (py ''received'', JInt 1)]
      then ''{"status": "ok", "received": 1}''
      else if v = JObj [(py ''status'', JStr (py ''ok'')), (py ''received'', JInt 0)]
      then ''{"status": "ok", "received": 0}''
      else if v = JObj [(py ''status'', JStr (py ''error'')),
                        (py ''message'', JStr (py ''AttributeError''))]
      then ''{"status": "error", "message": "AttributeError"}''
      else if v = JObj [(py ''status'', JStr (py ''error'')),
                        (py ''message'', JStr (py ''TypeError''))]
      then ''{"status": "error", "message": "TypeError"}''
      else [])\<close>

definition sink_dumps_unicode :: "json \<Rightarrow> pystr option" where
  "sink_dumps_unicode v =
     (if v = JObj [(py ''timestamp'', JStr (py ''2025-01-02T01:30:00.000000'')),
                   (py ''level'', JStr (py ''INFO'')), (py ''component'', JStr (py ''ui'')),
                   (py ''message'', JStr (py ''started'')),
                   (py ''device_id'', JStr (py ''dev1''))]
      then Some (py batch_line)
      else if v = JObj [(py ''timestamp'', JStr (py ''2025-01-02T01:30:00.000000'')),
                        (py ''level'', JStr (py ''DEBUG'')), (py ''component'', JStr []),
                        (py ''message'', JStr []), (py ''device_id'', JStr (py ''unknown''))]
      then Some (py bare_line)
      else None)"

definition sink_exc_str :: "py_exception \<Rightarrow> pystr" where
  "sink_exc_str e =
     (case e of
        ValueError \<Rightarrow> py ''ValueError'' | OverflowError \<Rightarrow> py ''OverflowError''
      | MemoryError \<Rightarrow> py ''MemoryError'' | BadGzipFile \<Rightarrow> py ''BadGzipFile''
      | EOFError \<Rightarrow> py ''EOFError'' | ZlibError \<Rightarrow> py ''ZlibError''
      | UnicodeDecodeError \<Rightarrow> py ''UnicodeDecodeError''
      | UnicodeEncodeError \<Rightarrow> py ''UnicodeEncodeError''
      | RecursionError \<Rightarrow> py ''RecursionError'' | AttributeError \<Rightarrow> py ''AttributeError''
      | TypeError \<Rightarrow> py ''TypeError'' | OSError \<Rightarrow> py ''OSError'')"

definition sink_env :: log_env where
  "sink_env =
     \<lparr>version_string = ''BaseHTTP/0.6 Python/3.11.4'',
      date_time_string = ''Wed, 01 Jan 2025 23:30:00 GMT'',
      alloc_limit = 1073741824,
      gzip_decompress = (\<lambda>b. Inl BadGzipFile),
      decode_utf8 = sink_decode,
      json_loads = sink_loads,
      json_dumps = sink_dumps,
      json_dumps_unicode = sink_dumps_unicode,
      py_str = (\<lambda>v. py ''None''),
      exc_str = sink_exc_str,
      now_isoformat = py ''2025-01-02T01:30:00.000000'',
      now_Ymd = py ''20250102'',
      utc_Ymd = py ''20250101'',
      open_append = (\<lambda>name. None),
      print_line = (\<lambda>line. None)\<rparr>"

definition post_batch :: log_request where
  "post_batch =
     \<lparr>log_path = ''/logs'',
      log_headers = [(''Content-Type'', ''application/json''), (''Content-Length'', ''83'')],
      log_rfile = batch_text\<rparr>"

definition post_list :: log_request where
  "post_list =
     \<lparr>log_path = ''/logs'',
      log_headers = [(''Content-Type'', ''application/json''), (''Content-Length'', ''2'')],
      log_rfile = ''[]''\<rparr>"

definition post_empty_object :: log_request where
  "post_empty_object =
     \<lparr>log_path = ''/logs'',
      log_headers = [(''Content-Type'', ''application/json''), (''Content-Length'', ''2'')],
      log_rfile = ''{}''\<rparr>"

definition post_bare_entry :: log_request where
  "post_bare_entry =
     \<lparr>log_path = ''/'',
      log_headers = [(''Content-Length'', ''13'')],
      log_rfile = bare_text\<rparr>"

definition post_null_logs :: log_request where
  "post_null_logs =
     \<lparr>log_path = ''/logs'',
      log_headers = [(''Content-Type'', ''application/json''), (''Content-Length'', ''14'')],
      log_rfile = null_logs_text\<rparr>"

section \<open>Lemmas about strings and dictionaries\<close>

lemma lower_upper_char: "lower_char (upper_char c) = lower_char c"
  by (simp add: lower_char_def upper_char_def ascii_uppercase_def ascii_lowercase_def)

lemma lower_lower_char: "lower_char (lower_char c) = lower_char c"
  by (simp add: lower_char_def ascii_uppercase_def ascii_lowercase_def)

lemma lower_capitalize: "lower (capitalize s) = lower s"
  by (cases s) (simp_all add: lower_def capitalize_def lower_upper_char lower_lower_char)

lemma map_of_dict_set: "map_of (dict_set d k v) = (map_of d)(k \<mapsto> v)"
  by (induction d k v rule: dict_set.induct) (auto simp: fun_upd_twist)

lemma keys_dict_set: "fst ` set (dict_set d k v) = insert k (fst ` set d)"
  by (induction d k v rule: dict_set.induct) auto

lemma distinct_dict_set: "distinct (map fst d) \<Longrightarrow> distinct (map fst (dict_set d k v))"
  by (induction d k v rule: dict_set.induct) (auto simp: keys_dict_set)

text \<open>\<open>dict(self.headers)\<close>: distinct keys, each with the first value of its name.\<close>

lemma msg_get_key: "k \<in> fst ` set hs \<Longrightarrow> \<exists>v. msg_get hs k = Some v"
  by (induction hs) (auto simp: msg_get_def)

lemma msg_get_lower: "lower k = lower k' \<Longrightarrow> msg_get hs k = msg_get hs k'"
  by (simp add: msg_get_def)

lemma fold_dict_map_of:
  "map_of (fold (\<lambda>k d. case g k of Some v \<Rightarrow> dict_set d k v | None \<Rightarrow> d) ks d0) k =
     (if k \<in> set ks \<and> g k \<noteq> None then g k else map_of d0 k)"
  by (induction ks arbitrary: d0) (auto simp: map_of_dict_set split: option.splits)

lemma fold_dict_distinct:
  "distinct (map fst d0) \<Longrightarrow>
   distinct (map fst (fold (\<lambda>k d. case g k of Some v \<Rightarrow> dict_set d k v | None \<Rightarrow> d) ks d0))"
  by (induction ks arbitrary: d0) (auto simp: distinct_dict_set split: option.splits)

lemma distinct_dict_of_message: "distinct (map fst (dict_of_message hs))"
  unfolding dict_of_message_def by (rule fold_dict_distinct) simp

lemma map_of_dict_of_message:
  "map_of (dict_of_message hs) k = (if k \<in> fst ` set hs then msg_get hs k else None)"
  unfolding dict_of_message_def using msg_get_key[of k hs]
  by (auto simp: fold_dict_map_of)

lemma dict_of_message_entry:
  "(k, v) \<in> set (dict_of_message hs) \<longleftrightarrow> k \<in> fst ` set hs \<and> msg_get hs k = Some v"
proof -
  have "(k, v) \<in> set (dict_of_message hs) \<longleftrightarrow> map_of (dict_of_message hs) k = Some v"
    using distinct_dict_of_message[of hs] by simp
  then show ?thesis by (simp add: map_of_dict_of_message)
qed

section \<open>The outbound request: lemmas\<close>

text \<open>The copying loop, one header at a time.\<close>

lemma copy_headers_Nil: "copy_headers [] req = req"
  by (simp add: copy_headers_def)

lemma copy_headers_Cons:
  "copy_headers ((k, v) # d) req =
     copy_headers d (if forwarded k
                     then add_header req k v else req)"
  by (simp add: copy_headers_def)

lemma copy_headers_fields:
  "full_url (copy_headers d req) = full_url req \<and> data (copy_headers d req) = data req
     \<and> req_method (copy_headers d req) = req_method req"
proof (induction d arbitrary: req)
  case Nil
  show ?case by (simp add: copy_headers_Nil)
next
  case (Cons kv d)
  obtain k v where kv: "kv = (k, v)" by (cases kv)
  show ?case unfolding kv copy_headers_Cons using Cons[of "add_header req k v"] Cons[of req]
    by (simp add: add_header_def)
qed

lemma copy_headers_distinct:
  "distinct (map fst (req_headers req)) \<Longrightarrow> distinct (map fst (req_headers (copy_headers d req)))"
proof (induction d arbitrary: req)
  case Nil
  then show ?case by (simp add: copy_headers_Nil)
next
  case (Cons kv d)
  obtain k v where kv: "kv = (k, v)" by (cases kv)
  from Cons.prems have "distinct (map fst (req_headers (add_header req k v)))"
    by (simp add: add_header_def distinct_dict_set)
  with Cons show ?case unfolding kv copy_headers_Cons by simp
qed

lemma copy_headers_origin:
  "map_of (req_headers (copy_headers d req)) K = Some v \<Longrightarrow>
   map_of (req_headers req) K = Some v \<or>
   (\<exists>k. (k, v) \<in> set d \<and> forwarded k \<and> K = capitalize k)"
proof (induction d arbitrary: req)
  case Nil
  then show ?case by (simp add: copy_headers_Nil)
next
  case (Cons kv d)
  obtain k v' where kv: "kv = (k, v')" by (cases kv)
  show ?case
  proof (cases "forwarded k")
    case True
    with Cons.prems kv have "map_of (req_headers (copy_headers d (add_header req k v'))) K = Some v"
      by (simp add: copy_headers_Cons)
    from Cons.IH[OF this] show ?thesis
    proof
      assume "map_of (req_headers (add_header req k v')) K = Some v"
      then show ?thesis using True kv
        by (auto simp: add_header_def map_of_dict_set split: if_splits)
    next
      assume "\<exists>k. (k, v) \<in> set d \<and> forwarded k \<and> K = capitalize k"
      then show ?thesis using kv by auto
    qed
  next
    case False
    with Cons.prems kv have "map_of (req_headers (copy_headers d req)) K = Some v"
      by (simp add: copy_headers_Cons)
    from Cons.IH[OF this] show ?thesis using kv by auto
  qed
qed

lemma copy_headers_value:
  assumes same: "\<And>k v. (k, v) \<in> set d \<Longrightarrow> forwarded k \<Longrightarrow> capitalize k = K \<Longrightarrow> v = v0"
    and some: "map_of (req_headers req) K = Some v0 \<or>
         (\<exists>k v. (k, v) \<in> set d \<and> forwarded k \<and> capitalize k = K)"
  shows "map_of (req_headers (copy_headers d req)) K = Some v0"
  using assms
proof (induction d arbitrary: req)
  case Nil
  then show ?case by (simp add: copy_headers_Nil)
next
  case (Cons kv d)
  obtain k v where kv: "kv = (k, v)" by (cases kv)
  have tail: "\<And>k v. (k, v) \<in> set d \<Longrightarrow> forwarded k \<Longrightarrow> capitalize k = K \<Longrightarrow> v = v0"
    using Cons.prems(1) by auto
  define req' where "req' = (if forwarded k then add_header req k v else req)"
  have step: "copy_headers (kv # d) req = copy_headers d req'"
    by (simp add: kv copy_headers_Cons req'_def)
  have "map_of (req_headers req') K = Some v0 \<or>
         (\<exists>k v. (k, v) \<in> set d \<and> forwarded k \<and> capitalize k = K)"
  proof (cases "forwarded k \<and> capitalize k = K")
    case True
    with Cons.prems(1)[of k v] kv have "v = v0" by simp
    with True show ?thesis by (simp add: req'_def add_header_def map_of_dict_set)
  next
    case False
    then have "map_of (req_headers req') K = map_of (req_headers req) K"
      by (auto simp: req'_def add_header_def map_of_dict_set)
    with Cons.prems(2) False kv show ?thesis by auto
  qed
  then have "map_of (req_headers (copy_headers d req')) K = Some v0"
    by (rule Cons.IH[rotated]) (rule tail)
  with step show ?case by simp
qed

lemma capitalize_Content_Length: "capitalize ''Content-Length'' = ''Content-length''"
  by code_simp

lemma lower_Content_length: "lower ''Content-length'' = ''content-length''"
  by code_simp

lemma forwarded_capitalize: "forwarded (capitalize k) = forwarded k"
  by (simp add: forwarded_def lower_capitalize)

lemma not_forwarded_Content_length: "\<not> forwarded ''Content-length''"
  by (simp add: forwarded_def lower_Content_length)

text \<open>The headers after the copying loop, before Content-Length is added.\<close>

lemma copied_origin:
  assumes "(K, v) \<in> set (req_headers (copy_headers (dict_of_message hs) (Request u b m)))"
  shows "\<exists>name. name \<in> fst ` set hs \<and> forwarded name \<and> K = capitalize name
            \<and> msg_get hs name = Some v"
proof -
  have "distinct (map fst (req_headers (copy_headers (dict_of_message hs) (Request u b m))))"
    by (rule copy_headers_distinct) (simp add: Request_def)
  with assms have "map_of (req_headers (copy_headers (dict_of_message hs) (Request u b m))) K = Some v"
    by simp
  from copy_headers_origin[OF this]
  obtain k where "(k, v) \<in> set (dict_of_message hs)" "forwarded k" "K = capitalize k"
    by (auto simp: Request_def)
  then show ?thesis by (auto simp: dict_of_message_entry)
qed

lemma copied_value:
  assumes "name \<in> fst ` set hs" and "forwarded name"
  shows "map_of (req_headers (copy_headers (dict_of_message hs) req)) (capitalize name)
           = msg_get hs name"
proof -
  from msg_get_key[OF assms(1)] obtain v0 where v0: "msg_get hs name = Some v0" by blast
  have "map_of (req_headers (copy_headers (dict_of_message hs) req)) (capitalize name) = Some v0"
  proof (rule copy_headers_value)
    fix k v
    assume kv: "(k, v) \<in> set (dict_of_message hs)" and "capitalize k = capitalize name"
    then have "lower (capitalize k) = lower (capitalize name)" by simp
    then have "lower k = lower name" by (simp add: lower_capitalize)
    then have "msg_get hs k = msg_get hs name" by (rule msg_get_lower)
    with kv v0 show "v = v0" by (simp add: dict_of_message_entry)
  next
    from assms v0 have "(name, v0) \<in> set (dict_of_message hs)"
      by (simp add: dict_of_message_entry)
    with assms(2)
    show "map_of (req_headers req) (capitalize name) = Some v0 \<or>
          (\<exists>k v. (k, v) \<in> set (dict_of_message hs) \<and> forwarded k \<and> capitalize k = capitalize name)"
      by blast
  qed
  with v0 show ?thesis by simp
qed

lemma prepare_request_data: "data (prepare_request u m b d) = b"
  by (auto simp: prepare_request_def Let_def copy_headers_fields Request_def add_header_def
      split: option.splits)

lemma prepare_request_headers:
  "req_headers (prepare_request u m b d) =
     (if b = None \<or> b = Some [] then req_headers (copy_headers d (Request u b m))
      else dict_set (req_headers (copy_headers d (Request u b m))) ''Content-length''
             (str_nat (length (the b))))"
  by (auto simp: prepare_request_def Let_def add_header_def capitalize_Content_Length
      split: option.splits)

lemma prepare_request_distinct: "distinct (map fst (req_headers (prepare_request u m b d)))"
proof -
  have "distinct (map fst (req_headers (copy_headers d (Request u b m))))"
    by (rule copy_headers_distinct) (simp add: Request_def)
  then show ?thesis by (simp add: prepare_request_headers distinct_dict_set)
qed

lemma prepare_request_entry:
  assumes "(K, v) \<in> set (req_headers (prepare_request u m b (dict_of_message hs)))"
  shows "(\<exists>body. b = Some body \<and> body \<noteq> [] \<and> K = ''Content-length'' \<and> v = str_nat (length body))
       \<or> (\<exists>name. name \<in> fst ` set hs \<and> forwarded name \<and> K = capitalize name
              \<and> msg_get hs name = Some v)"
proof (cases "b = None \<or> b = Some []")
  case True
  with assms have "(K, v) \<in> set (req_headers (copy_headers (dict_of_message hs) (Request u b m)))"
    by (simp add: prepare_request_headers)
  from copied_origin[OF this] show ?thesis by blast
next
  case False
  then obtain body where b: "b = Some body" "body \<noteq> []" by auto
  let ?h = "req_headers (copy_headers (dict_of_message hs) (Request u b m))"
  from assms prepare_request_distinct[of u m b "dict_of_message hs"]
  have "map_of (req_headers (prepare_request u m b (dict_of_message hs))) K = Some v"
    by simp
  with False b have m: "((map_of ?h)(''Content-length'' \<mapsto> str_nat (length body))) K = Some v"
    by (simp add: prepare_request_headers map_of_dict_set)
  show ?thesis
  proof (cases "K = ''Content-length''")
    case True
    with m b show ?thesis by simp
  next
    case False
    with m have "map_of ?h K = Some v" by simp
    then have "(K, v) \<in> set ?h" by (rule map_of_SomeD)
    from copied_origin[OF this] show ?thesis by blast
  qed
qed

lemma prepare_request_value:
  assumes "name \<in> fst ` set hs" and "forwarded name"
  shows "map_of (req_headers (prepare_request u m b (dict_of_message hs))) (capitalize name)
           = msg_get hs name"
proof -
  from assms(2) have "capitalize name \<noteq> ''Content-length''"
    using forwarded_capitalize[of name] not_forwarded_Content_length by auto
  then show ?thesis
    by (simp add: prepare_request_headers map_of_dict_set copied_value[OF assms])
qed

lemma prepare_request_Content_length:
  assumes "b = Some body" and "body \<noteq> []"
  shows "map_of (req_headers (prepare_request u m b d)) ''Content-length'' = Some (str_nat (length body))"
  using assms by (simp add: prepare_request_headers map_of_dict_set)

section \<open>The relayed response: lemmas\<close>


lemma proxy_request_calls:
  "snd (proxy_request env u m b h) = [(prepare_request u m b h, 10)]"
  by (simp add: proxy_request_def Let_def)


lemma proxy_request_HTTPError:
  assumes "urlopen env (prepare_request u m b h) 10 = HTTPError code reason ehs ebody"
  shows "fst (proxy_request env u m b h) =
           \<lparr>status = code,
            resp_headers = [(''Server'', version_string env), (''Date'', date_time_string env),
                            (''Content-Type'', ''text/plain''),
                            (''Access-Control-Allow-Origin'', ''*'')],
            resp_body = encode (''Proxy error: '' @ reason)\<rparr>"
  using assms
  by (simp add: proxy_request_def Let_def send_response_def send_header_def wfile_write_def)

lemma proxy_request_OtherError:
  assumes "urlopen env (prepare_request u m b h) 10 = OtherError msg"
  shows "fst (proxy_request env u m b h) =
           \<lparr>status = 500,
            resp_headers = [(''Server'', version_string env), (''Date'', date_time_string env),
                            (''Content-Type'', ''text/plain''),
                            (''Access-Control-Allow-Origin'', ''*'')],
            resp_body = encode (''Proxy error: '' @ msg)\<rparr>"
  using assms
  by (simp add: proxy_request_def Let_def send_response_def send_header_def wfile_write_def)

text \<open>Every handler that forwards does so through one call of \<open>proxy_request\<close>.\<close>

lemma handle_forwards:
  assumes "handle env r = Inr (w, calls)" and "command r \<noteq> OPTIONS"
  shows "\<exists>u m b. (w, calls) = proxy_request env u m b (dict_of_message (in_headers r))
            \<and> u = (if (command r = GET \<and> startswith (path r) ''/health'')
                        \<or> (command r = POST \<and> startswith (path r) ''/logs'')
                     then LOG_SERVER_URL else ASSET_SERVER_URL) @ path r"
proof (cases "command r")
  case GET
  with assms show ?thesis
    by (auto simp: handle_def do_GET_def startswith_def split: if_splits intro: sym)
next
  case POST
  with assms show ?thesis
    by (auto simp: handle_def do_POST_def startswith_def
        split: if_splits option.splits sum.splits intro: sym)
next
  case PUT
  with assms show ?thesis
    by (auto simp: handle_def do_PUT_def split: option.splits sum.splits intro: sym)
next
  case DELETE
  with assms show ?thesis
    by (auto simp: handle_def do_DELETE_def intro: sym)
next
  case OPTIONS
  with assms show ?thesis by simp
qed

lemma handle_calls:
  assumes "handle env r = Inr (w, calls)" and "(req, t) \<in> set calls"
  shows "\<exists>u m. req = prepare_request u m (data req) (dict_of_message (in_headers r))
            \<and> t = 10 \<and> calls = [(req, t)] \<and> w = fst (proxy_request env u m (data req) (dict_of_message (in_headers r)))"
proof -
  from assms have "command r \<noteq> OPTIONS"
    by (auto simp: handle_def do_OPTIONS_def Let_def)
  from handle_forwards[OF assms(1) this]
  obtain u m b where wc: "(w, calls) = proxy_request env u m b (dict_of_message (in_headers r))"
    by blast
  then have "calls = snd (proxy_request env u m b (dict_of_message (in_headers r)))"
    by (metis snd_conv)
  then have c: "calls = [(prepare_request u m b (dict_of_message (in_headers r)), 10)]"
    by (simp add: proxy_request_calls)
  with assms(2) have req: "req = prepare_request u m b (dict_of_message (in_headers r))" and "t = 10"
    by auto
  moreover from req have "data req = b" by (simp add: prepare_request_data)
  moreover from wc have "w = fst (proxy_request env u m b (dict_of_message (in_headers r)))"
    by (metis fst_conv)
  ultimately show ?thesis using c by auto
qed


lemma proxy_request_error_headers:
  assumes "\<not> is_Response (urlopen env (prepare_request u m b h) 10)"
  shows "resp_headers (fst (proxy_request env u m b h)) =
           [(''Server'', version_string env), (''Date'', date_time_string env),
            (''Content-Type'', ''text/plain''), (''Access-Control-Allow-Origin'', ''*'')]"
proof (cases "urlopen env (prepare_request u m b h) 10")
  case (Response st hs body)
  with assms show ?thesis by simp
next
  case (HTTPError code reason ehs ebody)
  then show ?thesis by (simp add: proxy_request_HTTPError)
next
  case (OtherError msg)
  then show ?thesis by (simp add: proxy_request_OtherError)
qed

lemma malformed_length_raises:
  assumes "parse_content_length r = None" and "command r = POST \<or> command r = PUT"
  shows "handle env r = Inl ValueError"
  using assms by (auto simp: handle_def do_POST_def do_PUT_def)



section \<open>The time a backend call takes: lemmas\<close>





section \<open>Claims about the reverse proxy\<close>

text \<open>
  C1, as amended. The method is part of the routing key. For every request that a
  handler forwards: a GET whose path starts with \<open>/health\<close> and a POST whose path starts
  with \<open>/logs\<close> go to the log server; every other GET and POST, and every PUT and DELETE,
  go to the asset server, with the path appended unchanged. A GET whose path starts with
  \<open>/logs/health\<close> is left out: the comment in \<open>do_GET\<close> names that path for the log
  server while the condition below the comment does not match it.
\<close>

theorem routing_by_method_and_path:
  assumes "handle env r = Inr (w, calls)"
    and "command r \<noteq> OPTIONS"
    and "\<not> (command r = GET \<and> startswith (path r) ''/logs/health'')"
  shows "map (\<lambda>c. full_url (fst c)) calls =
           [(if (command r = GET \<and> startswith (path r) ''/health'')
                 \<or> (command r = POST \<and> startswith (path r) ''/logs'')
             then LOG_SERVER_URL else ASSET_SERVER_URL) @ path r]"
proof -
  from handle_forwards[OF assms(1,2)]
  obtain u m b where wc: "(w, calls) = proxy_request env u m b (dict_of_message (in_headers r))"
    and u: "u = (if (command r = GET \<and> startswith (path r) ''/health'')
                        \<or> (command r = POST \<and> startswith (path r) ''/logs'')
                     then LOG_SERVER_URL else ASSET_SERVER_URL) @ path r"
    by blast
  from wc have "calls = snd (proxy_request env u m b (dict_of_message (in_headers r)))"
    by (metis snd_conv)
  then have "map (\<lambda>c. full_url (fst c)) calls = [u]"
    by (simp add: proxy_request_calls prepare_request_def Let_def copy_headers_fields
        Request_def add_header_def split: option.splits)
  with u show ?thesis by simp
qed

text \<open>C1, witness: a POST to \<open>/logs\<close> is forwarded to the log server.\<close>

theorem routing_by_method_and_path_witness:
  "command post_tagged \<noteq> OPTIONS
   \<and> \<not> (command post_tagged = GET \<and> startswith (path post_tagged) ''/logs/health'')
   \<and> backend_urls (handle (backend asset_missing) post_tagged) = [''http://localhost:8001/logs'']"
proof -
  have c: "command post_tagged \<noteq> OPTIONS" by (simp add: post_tagged_def)
  have g: "\<not> (command post_tagged = GET \<and> startswith (path post_tagged) ''/logs/health'')"
    by (simp add: post_tagged_def)
  have "\<not> isl (handle (backend asset_missing) post_tagged)" by code_simp
  then obtain w calls where h: "handle (backend asset_missing) post_tagged = Inr (w, calls)"
    by (cases "handle (backend asset_missing) post_tagged") auto
  have "map (\<lambda>c. full_url (fst c)) calls = [''http://localhost:8001/logs'']"
    using routing_by_method_and_path[OF h c g]
    by (simp add: post_tagged_def startswith_def LOG_SERVER_URL_def)
  with h c g show ?thesis by (simp add: backend_urls_def)
qed

text \<open>
  C1 as stated fails: the path of this PUT starts with \<open>/logs\<close>, and the request is
  forwarded to the asset server.
\<close>

theorem routing_ignores_method_counterexample:
  "startswith (path put_logs) ''/logs''
   \<and> backend_urls (handle (backend backend_down) put_logs) = [''http://localhost:8002/logs'']
   \<and> ASSET_SERVER_URL @ path put_logs = ''http://localhost:8002/logs''"
  by code_simp




text \<open>
  C3, as amended. For every request a handler forwards: the outbound header dictionary
  has no \<open>Host\<close> and no \<open>Connection\<close> entry; it has a \<open>Content-Length\<close> entry exactly when
  the forwarded body is non-empty, and its value is then the length of that body; every
  other entry is the name of an inbound header, spelled as \<open>str.capitalize\<close> gives it,
  with the value of the first inbound header line of that name; every inbound name that
  is not one of the three has such an entry; and no name occurs twice. (A later inbound
  line that repeats a name is therefore not forwarded.)
\<close>

theorem outbound_headers:
  assumes "handle env r = Inr (w, calls)" and "(req, t) \<in> set calls"
  shows "(\<forall>K v. (K, v) \<in> set (req_headers req) \<longrightarrow>
            lower K \<noteq> ''host'' \<and> lower K \<noteq> ''connection'' \<and>
            ((\<exists>body. data req = Some body \<and> body \<noteq> [] \<and> K = ''Content-length''
                     \<and> v = str_nat (length body))
             \<or> (\<exists>name. name \<in> fst ` set (in_headers r) \<and> forwarded name
                     \<and> K = capitalize name \<and> msg_get (in_headers r) name = Some v)))
       \<and> (\<forall>body. data req = Some body \<and> body \<noteq> [] \<longrightarrow>
            map_of (req_headers req) ''Content-length'' = Some (str_nat (length body)))
       \<and> (data req = None \<or> data req = Some [] \<longrightarrow>
            (\<forall>K v. (K, v) \<in> set (req_headers req) \<longrightarrow> lower K \<noteq> ''content-length''))
       \<and> (\<forall>name. name \<in> fst ` set (in_headers r) \<and> forwarded name \<longrightarrow>
            map_of (req_headers req) (capitalize name) = msg_get (in_headers r) name)
       \<and> distinct (map fst (req_headers req))"
proof -
  let ?hs = "in_headers r"
  from handle_calls[OF assms]
  obtain u m where req: "req = prepare_request u m (data req) (dict_of_message ?hs)"
    by blast
  have entry: "\<And>K v. (K, v) \<in> set (req_headers req) \<Longrightarrow>
      (\<exists>body. data req = Some body \<and> body \<noteq> [] \<and> K = ''Content-length''
                     \<and> v = str_nat (length body))
       \<or> (\<exists>name. name \<in> fst ` set ?hs \<and> forwarded name
                     \<and> K = capitalize name \<and> msg_get ?hs name = Some v)"
    using prepare_request_entry[of _ _ u m "data req" ?hs] req by simp
  have low: "\<And>K v. (K, v) \<in> set (req_headers req) \<Longrightarrow>
      lower K \<noteq> ''host'' \<and> lower K \<noteq> ''connection''"
  proof -
    fix K v assume "(K, v) \<in> set (req_headers req)"
    from entry[OF this] show "lower K \<noteq> ''host'' \<and> lower K \<noteq> ''connection''"
    proof
      assume "\<exists>body. data req = Some body \<and> body \<noteq> [] \<and> K = ''Content-length''
                     \<and> v = str_nat (length body)"
      then have "lower K = ''content-length''" by (auto simp: lower_Content_length)
      then show ?thesis by simp
    next
      assume "\<exists>name. name \<in> fst ` set ?hs \<and> forwarded name
                     \<and> K = capitalize name \<and> msg_get ?hs name = Some v"
      then obtain name where "forwarded name" "K = capitalize name" by blast
      then have "forwarded K" by (simp add: forwarded_capitalize)
      then show ?thesis by (simp add: forwarded_def)
    qed
  qed
  have nobody: "data req = None \<or> data req = Some [] \<Longrightarrow>
      (\<forall>K v. (K, v) \<in> set (req_headers req) \<longrightarrow> lower K \<noteq> ''content-length'')"
  proof (intro allI impI)
    fix K v assume empty: "data req = None \<or> data req = Some []"
      and "(K, v) \<in> set (req_headers req)"
    from entry[OF this(2)] empty
    obtain name where "forwarded name" "K = capitalize name" by auto
    then have "forwarded K" by (simp add: forwarded_capitalize)
    then show "lower K \<noteq> ''content-length''" by (simp add: forwarded_def)
  qed
  have cl: "\<And>body. data req = Some body \<and> body \<noteq> [] \<Longrightarrow>
      map_of (req_headers req) ''Content-length'' = Some (str_nat (length body))"
    using prepare_request_Content_length[of "data req" _ u m "dict_of_message ?hs"] req by simp
  have val: "\<And>name. name \<in> fst ` set ?hs \<and> forwarded name \<Longrightarrow>
      map_of (req_headers req) (capitalize name) = msg_get ?hs name"
    using prepare_request_value[of _ ?hs u m "data req"] req by simp
  have dist: "distinct (map fst (req_headers req))"
    using prepare_request_distinct[of u m "data req" "dict_of_message ?hs"] req by simp
  from entry low nobody cl val dist show ?thesis by blast
qed

text \<open>
  C3, witness: a POST with \<open>Host\<close>, \<open>Connection\<close>, \<open>Content-Length\<close> and two \<open>X-Tag\<close> lines.
\<close>

theorem outbound_headers_witness:
  "requests_of (handle (backend asset_missing) post_tagged) = [post_tagged_forwarded]
   \<and> map_of (req_headers post_tagged_forwarded) ''Content-length'' = Some ''2''
   \<and> map_of (req_headers post_tagged_forwarded) ''X-tag'' = msg_get (in_headers post_tagged) ''X-Tag''
   \<and> distinct (map fst (req_headers post_tagged_forwarded))"
proof -
  have e: "handle (backend asset_missing) post_tagged =
             Inr (fst (proxy_request (backend asset_missing) ''http://localhost:8001/logs'' ''POST''
                        (Some ''{}'') (dict_of_message (in_headers post_tagged))),
                  [(post_tagged_forwarded, 10)])"
    by code_simp
  have m: "(post_tagged_forwarded, 10) \<in> set [(post_tagged_forwarded, 10::nat)]" by simp
  have n: "''X-Tag'' \<in> fst ` set (in_headers post_tagged) \<and> forwarded ''X-Tag''"
    by code_simp
  have c: "capitalize ''X-Tag'' = ''X-tag''" by code_simp
  have d: "data post_tagged_forwarded = Some ''{}'' \<and> ''{}'' \<noteq> ''''"
    by (simp add: post_tagged_forwarded_def)
  have s: "str_nat (length ''{}'') = ''2''" by code_simp
  from outbound_headers[OF e m] n c d s
  have "map_of (req_headers post_tagged_forwarded) ''Content-length'' = Some ''2''
   \<and> map_of (req_headers post_tagged_forwarded) ''X-tag'' = msg_get (in_headers post_tagged) ''X-Tag''
   \<and> distinct (map fst (req_headers post_tagged_forwarded))"
    by metis
  with e show ?thesis by (simp add: requests_of_def)
qed

text \<open>
  C3 as stated fails: the inbound line \<open>X-Tag: b\<close> is not one of the three stripped
  headers, and the request sent to the backend does not carry it.
\<close>

theorem duplicate_header_dropped_counterexample:
  "(''X-Tag'', ''b'') \<in> set (in_headers post_tagged)
   \<and> forwarded ''X-Tag''
   \<and> map req_headers (requests_of (handle (backend asset_missing) post_tagged))
       = [[(''X-tag'', ''a''), (''Content-length'', ''2'')]]"
  by code_simp




text \<open>
  C5. An OPTIONS request to any path is answered with status 200, the three CORS headers
  and an empty body, and no backend call is issued.
\<close>

theorem options_answered_locally:
  assumes "command r = OPTIONS"
  shows "handle env r =
           Inr (\<lparr>status = 200,
                 resp_headers = [(''Server'', version_string env), (''Date'', date_time_string env),
                                 (''Access-Control-Allow-Origin'', ''*''),
                                 (''Access-Control-Allow-Methods'', ''GET, POST, OPTIONS''),
                                 (''Access-Control-Allow-Headers'', ''Content-Type, Content-Encoding'')],
                 resp_body = []\<rparr>, [])"
  using assms
  by (simp add: handle_def do_OPTIONS_def Let_def send_response_def send_header_def)

text \<open>
  C5, witness: OPTIONS on \<open>/logs\<close>.
\<close>

theorem options_answered_locally_witness:
  "command options_logs = OPTIONS
   \<and> handle (backend asset_found) options_logs =
           Inr (\<lparr>status = 200,
                 resp_headers = [(''Server'', ''BaseHTTP/0.6 Python/3.11.4''),
                                 (''Date'', ''Thu, 02 Jan 2025 00:30:00 GMT''),
                                 (''Access-Control-Allow-Origin'', ''*''),
                                 (''Access-Control-Allow-Methods'', ''GET, POST, OPTIONS''),
                                 (''Access-Control-Allow-Headers'', ''Content-Type, Content-Encoding'')],
                 resp_body = []\<rparr>, [])"
proof -
  have c: "command options_logs = OPTIONS" by (simp add: options_logs_def)
  from options_answered_locally[OF c, of "backend asset_found"] c show ?thesis
    by (simp add: backend_def)
qed






text \<open>
  C8 fails on the code: a POST whose \<open>Content-Length\<close> is \<open>abc\<close>. \<open>int\<close> raises
  \<open>ValueError\<close> in \<open>do_POST\<close>, outside the \<open>try\<close> of \<open>_proxy_request\<close>; no response is
  written and no backend is called.
\<close>

theorem malformed_content_length_unanswered:
  "parse_content_length post_bad_length = None
   \<and> handle (backend asset_found) post_bad_length = Inl ValueError
   \<and> response_of (handle (backend asset_found) post_bad_length) = None"
  by code_simp

section \<open>The log sink: lemmas\<close>

lemma py_eq_iff: "py a = py b \<longleftrightarrow> a = b"
proof -
  have "inj (of_char :: char \<Rightarrow> nat)" by (rule injI) simp
  then show ?thesis unfolding py_def by (rule inj_map_eq_map)
qed

lemma py_append: "py a @ py b = py (a @ b)"
  by (simp add: py_def)

lemma py_encodable: "encodable (py s @ [10])"
proof -
  have "\<not> is_surrogate (of_char c)" for c :: char
  proof -
    have "(of_char c :: nat) mod 256 = of_char c" by (rule of_char_mod_256)
    then have "(of_char c :: nat) < 256" by (metis mod_less_divisor zero_less_numeral)
    then show ?thesis unfolding is_surrogate_def by linarith
  qed
  then show ?thesis by (induction s) (simp_all add: encodable_def py_def is_surrogate_def)
qed

lemma write_lines_written:
  assumes "map (\<lambda>e. json_dumps_unicode env (entry_record device_id timestamp e)) items
             = map Some lines"
    and "\<forall>l\<in>set lines. encodable (l @ [10])"
  shows "write_lines (log_line env device_id timestamp) (map JObj items) =
           (concat (map (\<lambda>l. l @ [10]) lines), None)"
  using assms
proof (induction items arbitrary: lines)
  case Nil
  then show ?case by simp
next
  case (Cons e es)
  then obtain l ls where lines: "lines = l # ls" by (cases lines) auto
  with Cons.prems have "json_dumps_unicode env (entry_record device_id timestamp e) = Some l"
    and "encodable (l @ [10])"
    and "map (\<lambda>e. json_dumps_unicode env (entry_record device_id timestamp e)) es = map Some ls"
    and "\<forall>l\<in>set ls. encodable (l @ [10])"
    by auto
  with Cons.IH[of ls] lines show ?case by (simp add: log_line_def)
qed

lemma print_lines_printed:
  assumes "\<forall>e\<in>set items. print_line env (console_line env e) = None"
  shows "print_lines env (map JObj items) = None"
  using assms by (induction items) simp_all

lemma write_lines_not_dict:
  assumes "\<exists>e\<in>set es. \<not> is_dict e"
  shows "\<exists>x. snd (write_lines (log_line env device_id timestamp) es) = Some x"
  using assms
proof (induction es)
  case Nil
  then show ?case by simp
next
  case (Cons e es)
  show ?case
  proof (cases "log_line env device_id timestamp e")
    case (Inl x)
    then show ?thesis by simp
  next
    case (Inr l)
    then have "is_dict e" by (cases e) (simp_all add: log_line_def)
    with Cons.prems have "\<exists>e\<in>set es. \<not> is_dict e" by simp
    from Cons.IH[OF this] Inr show ?thesis by (auto split: prod.splits)
  qed
qed

lemma process_logs_ok:
  assumes "py_iter (dict_get kvs (py ''logs'') (JArr [])) = Some (map JObj items)"
    and "open_append env (log_file_name env (dict_get kvs (py ''device_id'') (JStr (py ''unknown'')))) = None"
    and "map (\<lambda>e. json_dumps_unicode env
                     (entry_record (dict_get kvs (py ''device_id'') (JStr (py ''unknown'')))
                        (now_isoformat env) e)) items
           = map Some lines"
    and "\<forall>l\<in>set lines. encodable (l @ [10])"
    and "\<forall>e\<in>set items. print_line env (console_line env e) = None"
  shows "process_logs env fs (JObj kvs) =
           (Inr \<lparr>status = 200,
                 resp_headers = [(''Server'', version_string env), (''Date'', date_time_string env),
                                 (''Content-Type'', ''application/json''),
                                 (''Access-Control-Allow-Origin'', ''*'')],
                 resp_body = encode (json_dumps env
                               (JObj [(py ''status'', JStr (py ''ok'')),
                                      (py ''received'', JInt (int (length items)))]))\<rparr>,
            fs(log_file_name env (dict_get kvs (py ''device_id'') (JStr (py ''unknown''))) \<mapsto>
                 file_text fs (log_file_name env (dict_get kvs (py ''device_id'') (JStr (py ''unknown''))))
                 @ concat (map (\<lambda>l. l @ [10]) lines)))"
  using assms(1,2) write_lines_written[OF assms(3,4)] print_lines_printed[OF assms(5)]
  by (simp add: process_logs_def dict_get_def [symmetric] Let_def
      send_response_def send_header_def wfile_write_def)

lemma process_logs_not_dict:
  assumes "\<not> is_dict log_data"
  shows "process_logs env fs log_data = (Inl AttributeError, fs)"
  using assms by (cases log_data) (simp_all add: process_logs_def)

lemma process_logs_raises:
  assumes "py_iter (dict_get kvs (py ''logs'') (JArr [])) = None
           \<or> (\<exists>entries. py_iter (dict_get kvs (py ''logs'') (JArr [])) = Some entries
                 \<and> (\<exists>e\<in>set entries. \<not> is_dict e))"
  shows "\<exists>e fs'. process_logs env fs (JObj kvs) = (Inl e, fs')"
  using assms
proof
  assume "py_iter (dict_get kvs (py ''logs'') (JArr [])) = None"
  then show ?thesis
    by (simp add: process_logs_def dict_get_def [symmetric] Let_def split: option.splits)
next
  assume "\<exists>entries. py_iter (dict_get kvs (py ''logs'') (JArr [])) = Some entries
                 \<and> (\<exists>e\<in>set entries. \<not> is_dict e)"
  then obtain entries where i: "py_iter (dict_get kvs (py ''logs'') (JArr [])) = Some entries"
    and "\<exists>e\<in>set entries. \<not> is_dict e" by blast
  from write_lines_not_dict[OF this(2)]
  obtain x where "snd (write_lines (log_line env (dict_get kvs (py ''device_id'') (JStr (py ''unknown'')))
                         (now_isoformat env)) entries) = Some x"
    by blast
  with i show ?thesis
    by (auto simp: process_logs_def dict_get_def [symmetric] Let_def
        split: option.splits prod.splits)
qed

lemma log_do_POST_parsed:
  assumes "log_path r = ''/logs'' \<or> log_path r = ''/''"
    and "log_content_length r = Some n" and "n \<noteq> 0"
    and "read_text env r n = Inr decoded"
    and "json_loads env decoded = Loaded log_data"
  shows "try_handle_logs env fs r = process_logs env fs log_data"
  using assms by (simp add: try_handle_logs_def)

lemma log_do_POST_400:
  assumes "log_path r = ''/logs'' \<or> log_path r = ''/''"
    and "log_content_length r = Some 0
         \<or> (\<exists>n decoded. log_content_length r = Some n \<and> n \<noteq> 0 \<and> read_text env r n = Inr decoded
               \<and> json_loads env decoded = JSONDecodeError)"
  shows "log_do_POST env fs r =
           (\<lparr>status = 400,
             resp_headers = [(''Server'', version_string env), (''Date'', date_time_string env)],
             resp_body = []\<rparr>, fs)"
  using assms
  by (auto simp: log_do_POST_def handle_logs_def try_handle_logs_def send_response_def)

lemma log_do_POST_raised:
  assumes "log_path r = ''/logs'' \<or> log_path r = ''/''"
    and "try_handle_logs env fs r = (Inl e, fs')"
  shows "log_do_POST env fs r =
           (\<lparr>status = 500,
             resp_headers = [(''Server'', version_string env), (''Date'', date_time_string env)],
             resp_body = encode (json_dumps env
                           (JObj [(py ''status'', JStr (py ''error'')),
                                  (py ''message'', JStr (exc_str env e))]))\<rparr>, fs')"
  using assms
  by (simp add: log_do_POST_def handle_logs_def send_response_def wfile_write_def)

lemma log_do_POST_stored:
  assumes "log_path r = ''/logs'' \<or> log_path r = ''/''"
    and "log_content_length r = Some n" and "n \<noteq> 0"
    and "read_text env r n = Inr decoded"
    and "json_loads env decoded = Loaded (JObj kvs)"
    and "py_iter (dict_get kvs (py ''logs'') (JArr [])) = Some (map JObj items)"
    and "open_append env (log_file_name env (dict_get kvs (py ''device_id'') (JStr (py ''unknown'')))) = None"
    and "map (\<lambda>e. json_dumps_unicode env
                     (entry_record (dict_get kvs (py ''device_id'') (JStr (py ''unknown'')))
                        (now_isoformat env) e)) items
           = map Some lines"
    and "\<forall>l\<in>set lines. encodable (l @ [10])"
    and "\<forall>e\<in>set items. print_line env (console_line env e) = None"
  shows "log_do_POST env fs r =
           (\<lparr>status = 200,
             resp_headers = [(''Server'', version_string env), (''Date'', date_time_string env),
                             (''Content-Type'', ''application/json''),
                             (''Access-Control-Allow-Origin'', ''*'')],
             resp_body = encode (json_dumps env
                           (JObj [(py ''status'', JStr (py ''ok'')),
                                  (py ''received'', JInt (int (length items)))]))\<rparr>,
            fs(log_file_name env (dict_get kvs (py ''device_id'') (JStr (py ''unknown''))) \<mapsto>
                 file_text fs (log_file_name env (dict_get kvs (py ''device_id'') (JStr (py ''unknown''))))
                 @ concat (map (\<lambda>l. l @ [10]) lines)))"
proof -
  from assms(1-5) have "try_handle_logs env fs r = process_logs env fs (JObj kvs)"
    by (rule log_do_POST_parsed)
  with assms(1) process_logs_ok[OF assms(6-10), of fs] show ?thesis
    by (simp add: log_do_POST_def handle_logs_def)
qed

text \<open>The concrete requests, as far as the parser.\<close>

lemma sink_decode_ascii:
  assumes "filter (\<lambda>c. \<not> is_ascii c) b = []"
  shows "decode_utf8 sink_env b = Some (py b)"
  using assms by (simp add: sink_env_def sink_decode_def)

lemma post_batch_text:
  "log_content_length post_batch = Some 83 \<and> read_text sink_env post_batch 83 = Inr (py batch_text)"
proof -
  have "log_content_length post_batch = Some 83" by code_simp
  moreover have "rfile_read sink_env (log_rfile post_batch) 83 = Inr batch_text"
    by (simp add: rfile_read_def sink_env_def post_batch_def batch_text_def)
  moreover have "log_content_encoding post_batch = []" by code_simp
  moreover have "filter (\<lambda>c. \<not> is_ascii c) batch_text = []"
    by (simp add: batch_text_def is_ascii_def)
  ultimately show ?thesis by (simp add: read_text_def sink_decode_ascii)
qed

lemma post_batch_loaded:
  "json_loads sink_env (py batch_text) =
     Loaded (JObj [(py ''device_id'', JStr (py ''dev1'')),
                   (py ''logs'', JArr [JObj [(py ''level'', JStr (py ''INFO'')),
                                             (py ''component'', JStr (py ''ui'')),
                                             (py ''message'', JStr (py ''started''))]])])"
  by (simp add: sink_env_def sink_loads_def)

lemma sink_read_ascii:
  assumes "log_content_encoding r = []"
    and "rfile_read sink_env (log_rfile r) n = Inr b"
    and "filter (\<lambda>c. \<not> is_ascii c) b = []"
  shows "read_text sink_env r n = Inr (py b)"
  using assms by (simp add: read_text_def sink_decode_ascii)

lemma post_batch_file:
  "log_file_name sink_env (JStr (py ''dev1'')) = py ''dev1_20250102.log''"
  by (simp add: log_file_name_def fmt_def sink_env_def py_append)

lemma post_batch_line:
  "json_dumps_unicode sink_env
     (entry_record (JStr (py ''dev1'')) (now_isoformat sink_env)
        [(py ''level'', JStr (py ''INFO'')), (py ''component'', JStr (py ''ui'')),
         (py ''message'', JStr (py ''started''))])
   = Some (py batch_line)"
  by (simp add: entry_record_def dict_get_def py_eq_iff sink_env_def sink_dumps_unicode_def)

lemma post_batch_handled:
  \<open>log_do_POST sink_env Map.empty post_batch =
     (\<lparr>status = 200,
       resp_headers = [(''Server'', ''BaseHTTP/0.6 Python/3.11.4''),
                       (''Date'', ''Wed, 01 Jan 2025 23:30:00 GMT''),
                       (''Content-Type'', ''application/json''),
                       (''Access-Control-Allow-Origin'', ''*'')],
       resp_body = ''{"status": "ok", "received": 1}''\<rparr>,
      Map.empty(py ''dev1_20250102.log'' \<mapsto> py batch_line @ [10]))\<close>
proof -
  let ?entry = "[(py ''level'', JStr (py ''INFO'')), (py ''component'', JStr (py ''ui'')),
                 (py ''message'', JStr (py ''started''))]"
  let ?kvs = "[(py ''device_id'', JStr (py ''dev1'')), (py ''logs'', JArr [JObj ?entry])]"
  have p: "log_path post_batch = ''/logs'' \<or> log_path post_batch = ''/''"
    by (simp add: post_batch_def)
  have d: "dict_get ?kvs (py ''device_id'') (JStr (py ''unknown'')) = JStr (py ''dev1'')"
    by (simp add: dict_get_def)
  have i: "py_iter (dict_get ?kvs (py ''logs'') (JArr [])) = Some (map JObj [?entry])"
    by (simp add: dict_get_def py_eq_iff)
  have o: "open_append sink_env (log_file_name sink_env
             (dict_get ?kvs (py ''device_id'') (JStr (py ''unknown'')))) = None"
    by (simp add: sink_env_def)
  have l: "map (\<lambda>e. json_dumps_unicode sink_env
                     (entry_record (dict_get ?kvs (py ''device_id'') (JStr (py ''unknown'')))
                        (now_isoformat sink_env) e)) [?entry]
           = map Some [py batch_line]"
    unfolding d by (simp add: post_batch_line)
  have c: "\<forall>l\<in>set [py batch_line]. encodable (l @ [10])"
    by (simp add: py_encodable)
  have q: "\<forall>e\<in>set [?entry]. print_line sink_env (console_line sink_env e) = None"
    by (simp add: sink_env_def)
  have b: \<open>encode (json_dumps sink_env
             (JObj [(py ''status'', JStr (py ''ok'')),
                    (py ''received'', JInt (int (length [?entry])))]))
           = ''{"status": "ok", "received": 1}''\<close>
  proof -
    have \<open>encode ''{"status": "ok", "received": 1}'' = ''{"status": "ok", "received": 1}''\<close>
      by code_simp
    then show ?thesis by (simp add: sink_env_def sink_dumps_def)
  qed
  from log_do_POST_stored[OF p conjunct1[OF post_batch_text] _ conjunct2[OF post_batch_text]
      post_batch_loaded i o l c q, of Map.empty]
  show ?thesis
    unfolding d b post_batch_file by (simp add: sink_env_def file_text_def)
qed

lemma post_list_text:
  "log_content_length post_list = Some 2 \<and> read_text sink_env post_list 2 = Inr (py ''[]'')"
proof -
  have "log_content_length post_list = Some 2" by code_simp
  moreover have "log_content_encoding post_list = []" by code_simp
  moreover have "rfile_read sink_env (log_rfile post_list) 2 = Inr ''[]''"
    by (simp add: rfile_read_def sink_env_def post_list_def)
  moreover have "filter (\<lambda>c. \<not> is_ascii c) ''[]'' = []" by (simp add: is_ascii_def)
  ultimately show ?thesis by (simp add: sink_read_ascii)
qed

lemma post_list_loaded: "json_loads sink_env (py ''[]'') = Loaded (JArr [])"
  by (simp add: sink_env_def sink_loads_def py_eq_iff batch_text_def)

lemma post_null_logs_text:
  "log_content_length post_null_logs = Some 14
   \<and> read_text sink_env post_null_logs 14 = Inr (py null_logs_text)"
proof -
  have "log_content_length post_null_logs = Some 14" by code_simp
  moreover have "log_content_encoding post_null_logs = []" by code_simp
  moreover have "rfile_read sink_env (log_rfile post_null_logs) 14 = Inr null_logs_text"
    by (simp add: rfile_read_def sink_env_def post_null_logs_def null_logs_text_def)
  moreover have "filter (\<lambda>c. \<not> is_ascii c) null_logs_text = []"
    by (simp add: null_logs_text_def is_ascii_def)
  ultimately show ?thesis by (simp add: sink_read_ascii)
qed

lemma post_null_logs_loaded:
  "json_loads sink_env (py null_logs_text) = Loaded (JObj [(py ''logs'', JNull)])"
  by (simp add: sink_env_def sink_loads_def py_eq_iff batch_text_def null_logs_text_def)

lemma post_bare_entry_text:
  "log_content_length post_bare_entry = Some 13
   \<and> read_text sink_env post_bare_entry 13 = Inr (py bare_text)"
proof -
  have "log_content_length post_bare_entry = Some 13" by code_simp
  moreover have "log_content_encoding post_bare_entry = []" by code_simp
  moreover have "rfile_read sink_env (log_rfile post_bare_entry) 13 = Inr bare_text"
    by (simp add: rfile_read_def sink_env_def post_bare_entry_def bare_text_def)
  moreover have "filter (\<lambda>c. \<not> is_ascii c) bare_text = []"
    by (simp add: bare_text_def is_ascii_def)
  ultimately show ?thesis by (simp add: sink_read_ascii)
qed

lemma post_bare_entry_loaded:
  "json_loads sink_env (py bare_text) = Loaded (JObj [(py ''logs'', JArr [JObj []])])"
  by (simp add: sink_env_def sink_loads_def py_eq_iff batch_text_def null_logs_text_def
      bare_text_def)

section \<open>Claims about the log sink\<close>

text \<open>
  C9, as amended. For a POST to \<open>/logs\<close> or \<open>/\<close>: when \<open>Content-Length\<close> is absent or has the
  value 0 the sink responds 400. When it has another integer value, the read of the body
  succeeds and the body (decompressed when \<open>Content-Encoding\<close> is \<open>gzip\<close>) decodes as
  UTF-8, then: if \<open>json.loads\<close> raises \<open>JSONDecodeError\<close> the sink responds 400; if the text
  is valid JSON but not a JSON object the sink responds 500 with the body
  \<open>{"status": "error", "message": ...}\<close> and writes no file; and if it is a JSON object
  whose \<open>logs\<close> value (the empty list when absent) yields JSON objects, the file named by
  \<open>device_id\<close> and the date of \<open>datetime.now()\<close>, the host's local date, in the form
  YYYYMMDD, can be opened, the record of every entry is serialised to a line that can be
  encoded as UTF-8, and every entry's console line is printed, then the sink appends one
  JSON line per entry to that file and responds 200 with the body
  \<open>{"status": "ok", "received": n}\<close>, \<open>n\<close> the number of entries.
\<close>

theorem log_batch_stored:
  assumes "log_path r = ''/logs'' \<or> log_path r = ''/''"
  shows "(log_content_length r = Some 0 \<longrightarrow>
            log_do_POST env fs r =
              (\<lparr>status = 400,
                resp_headers = [(''Server'', version_string env), (''Date'', date_time_string env)],
                resp_body = []\<rparr>, fs))
       \<and> (\<forall>n text. log_content_length r = Some n \<and> n \<noteq> 0 \<and> read_text env r n = Inr text \<longrightarrow>
            (json_loads env text = JSONDecodeError \<longrightarrow>
               log_do_POST env fs r =
                 (\<lparr>status = 400,
                   resp_headers = [(''Server'', version_string env), (''Date'', date_time_string env)],
                   resp_body = []\<rparr>, fs))
          \<and> (\<forall>v. json_loads env text = Loaded v \<and> \<not> is_dict v \<longrightarrow>
               log_do_POST env fs r =
                 (\<lparr>status = 500,
                   resp_headers = [(''Server'', version_string env), (''Date'', date_time_string env)],
                   resp_body = encode (json_dumps env
                                 (JObj [(py ''status'', JStr (py ''error'')),
                                        (py ''message'', JStr (exc_str env AttributeError))]))\<rparr>,
                  fs))
          \<and> (\<forall>kvs items lines device_id log_file.
                json_loads env text = Loaded (JObj kvs)
                \<and> py_iter (dict_get kvs (py ''logs'') (JArr [])) = Some (map JObj items)
                \<and> device_id = dict_get kvs (py ''device_id'') (JStr (py ''unknown''))
                \<and> log_file = fmt env device_id @ py ''_'' @ now_Ymd env @ py ''.log''
                \<and> open_append env log_file = None
                \<and> map (\<lambda>e. json_dumps_unicode env (entry_record device_id (now_isoformat env) e))
                      items = map Some lines
                \<and> (\<forall>l\<in>set lines. encodable (l @ [10]))
                \<and> (\<forall>e\<in>set items. print_line env (console_line env e) = None) \<longrightarrow>
                log_do_POST env fs r =
                  (\<lparr>status = 200,
                    resp_headers = [(''Server'', version_string env), (''Date'', date_time_string env),
                                    (''Content-Type'', ''application/json''),
                                    (''Access-Control-Allow-Origin'', ''*'')],
                    resp_body = encode (json_dumps env
                                  (JObj [(py ''status'', JStr (py ''ok'')),
                                         (py ''received'', JInt (int (length items)))]))\<rparr>,
                   fs(log_file \<mapsto>
                        file_text fs log_file @ concat (map (\<lambda>l. l @ [10]) lines)))))"
proof (intro conjI allI impI)
  assume "log_content_length r = Some 0"
  with assms show "log_do_POST env fs r =
              (\<lparr>status = 400,
                resp_headers = [(''Server'', version_string env), (''Date'', date_time_string env)],
                resp_body = []\<rparr>, fs)"
    by (simp add: log_do_POST_400)
next
  fix n decoded
  assume "log_content_length r = Some n \<and> n \<noteq> 0 \<and> read_text env r n = Inr decoded"
    and "json_loads env decoded = JSONDecodeError"
  with assms show "log_do_POST env fs r =
              (\<lparr>status = 400,
                resp_headers = [(''Server'', version_string env), (''Date'', date_time_string env)],
                resp_body = []\<rparr>, fs)"
    by (intro log_do_POST_400) auto
next
  fix n decoded v
  assume a: "log_content_length r = Some n \<and> n \<noteq> 0 \<and> read_text env r n = Inr decoded"
    and b: "json_loads env decoded = Loaded v \<and> \<not> is_dict v"
  from a b assms have "try_handle_logs env fs r = process_logs env fs v"
    by (intro log_do_POST_parsed) auto
  with b have "try_handle_logs env fs r = (Inl AttributeError, fs)"
    by (simp add: process_logs_not_dict)
  with assms show "log_do_POST env fs r =
                 (\<lparr>status = 500,
                   resp_headers = [(''Server'', version_string env), (''Date'', date_time_string env)],
                   resp_body = encode (json_dumps env
                                 (JObj [(py ''status'', JStr (py ''error'')),
                                        (py ''message'', JStr (exc_str env AttributeError))]))\<rparr>,
                  fs)"
    by (rule log_do_POST_raised)
next
  fix n decoded kvs items lines device_id log_file
  assume a: "log_content_length r = Some n \<and> n \<noteq> 0 \<and> read_text env r n = Inr decoded"
    and b: "json_loads env decoded = Loaded (JObj kvs)
                \<and> py_iter (dict_get kvs (py ''logs'') (JArr [])) = Some (map JObj items)
                \<and> device_id = dict_get kvs (py ''device_id'') (JStr (py ''unknown''))
                \<and> log_file = fmt env device_id @ py ''_'' @ now_Ymd env @ py ''.log''
                \<and> open_append env log_file = None
                \<and> map (\<lambda>e. json_dumps_unicode env (entry_record device_id (now_isoformat env) e))
                      items = map Some lines
                \<and> (\<forall>l\<in>set lines. encodable (l @ [10]))
                \<and> (\<forall>e\<in>set items. print_line env (console_line env e) = None)"
  from b have f: "log_file = log_file_name env (dict_get kvs (py ''device_id'') (JStr (py ''unknown'')))"
    by (simp add: log_file_name_def)
  have "log_do_POST env fs r =
           (\<lparr>status = 200,
             resp_headers = [(''Server'', version_string env), (''Date'', date_time_string env),
                             (''Content-Type'', ''application/json''),
                             (''Access-Control-Allow-Origin'', ''*'')],
             resp_body = encode (json_dumps env
                           (JObj [(py ''status'', JStr (py ''ok'')),
                                  (py ''received'', JInt (int (length items)))]))\<rparr>,
            fs(log_file_name env (dict_get kvs (py ''device_id'') (JStr (py ''unknown''))) \<mapsto>
                 file_text fs (log_file_name env (dict_get kvs (py ''device_id'') (JStr (py ''unknown''))))
                 @ concat (map (\<lambda>l. l @ [10]) lines)))"
    using assms a b f by (intro log_do_POST_stored[where n = n and decoded = decoded]) auto
  with f show "log_do_POST env fs r =
                  (\<lparr>status = 200,
                    resp_headers = [(''Server'', version_string env), (''Date'', date_time_string env),
                                    (''Content-Type'', ''application/json''),
                                    (''Access-Control-Allow-Origin'', ''*'')],
                    resp_body = encode (json_dumps env
                                  (JObj [(py ''status'', JStr (py ''ok'')),
                                         (py ''received'', JInt (int (length items)))]))\<rparr>,
                   fs(log_file \<mapsto>
                        file_text fs log_file @ concat (map (\<lambda>l. l @ [10]) lines)))"
    by simp
qed

text \<open>
  C9, witness: the batch of the spec's end-to-end scenario.
\<close>

theorem log_batch_stored_witness:
  \<open>fst (log_do_POST sink_env Map.empty post_batch) =
     \<lparr>status = 200,
      resp_headers = [(''Server'', ''BaseHTTP/0.6 Python/3.11.4''),
                      (''Date'', ''Wed, 01 Jan 2025 23:30:00 GMT''),
                      (''Content-Type'', ''application/json''),
                      (''Access-Control-Allow-Origin'', ''*'')],
      resp_body = ''{"status": "ok", "received": 1}''\<rparr>
   \<and> snd (log_do_POST sink_env Map.empty post_batch) (py ''dev1_20250102.log'') =
       Some (py ''{"timestamp": "2025-01-02T01:30:00.000000", "level": "INFO", "component": "ui", "message": "started", "device_id": "dev1"}''
             @ [10])\<close>
proof -
  let ?entry = "[(py ''level'', JStr (py ''INFO'')), (py ''component'', JStr (py ''ui'')),
                 (py ''message'', JStr (py ''started''))]"
  let ?kvs = "[(py ''device_id'', JStr (py ''dev1'')), (py ''logs'', JArr [JObj ?entry])]"
  have p: "log_path post_batch = ''/logs'' \<or> log_path post_batch = ''/''"
    by (simp add: post_batch_def)
  have n: "log_content_length post_batch = Some 83 \<and> (83::int) \<noteq> 0
           \<and> read_text sink_env post_batch 83 = Inr (py batch_text)"
    using post_batch_text by simp
  have j: "json_loads sink_env (py batch_text) = Loaded (JObj ?kvs)"
    by (rule post_batch_loaded)
  have i: "py_iter (dict_get ?kvs (py ''logs'') (JArr [])) = Some (map JObj [?entry])"
    by (simp add: dict_get_def py_eq_iff)
  have d: "JStr (py ''dev1'') = dict_get ?kvs (py ''device_id'') (JStr (py ''unknown''))"
    by (simp add: dict_get_def)
  have f: "py ''dev1_20250102.log''
             = fmt sink_env (JStr (py ''dev1'')) @ py ''_'' @ now_Ymd sink_env @ py ''.log''"
    by (simp add: fmt_def sink_env_def py_append)
  have o: "open_append sink_env (py ''dev1_20250102.log'') = None"
    by (simp add: sink_env_def)
  have l: "map (\<lambda>e. json_dumps_unicode sink_env
                     (entry_record (JStr (py ''dev1'')) (now_isoformat sink_env) e)) [?entry]
           = map Some [py batch_line]"
    by (simp add: post_batch_line)
  have c: "\<forall>l\<in>set [py batch_line]. encodable (l @ [10])"
    by (simp add: py_encodable)
  have q: "\<forall>e\<in>set [?entry]. print_line sink_env (console_line sink_env e) = None"
    by (simp add: sink_env_def)
  from log_batch_stored[OF p, of sink_env Map.empty] n j i d f o l c q
  have e: "log_do_POST sink_env Map.empty post_batch =
                  (\<lparr>status = 200,
                    resp_headers = [(''Server'', version_string sink_env),
                                    (''Date'', date_time_string sink_env),
                                    (''Content-Type'', ''application/json''),
                                    (''Access-Control-Allow-Origin'', ''*'')],
                    resp_body = encode (json_dumps sink_env
                                  (JObj [(py ''status'', JStr (py ''ok'')),
                                         (py ''received'', JInt (int (length [?entry])))]))\<rparr>,
                   Map.empty(py ''dev1_20250102.log'' \<mapsto>
                        file_text Map.empty (py ''dev1_20250102.log'')
                        @ concat (map (\<lambda>l. l @ [10]) [py batch_line])))"
    by blast
  have b: \<open>encode (json_dumps sink_env
             (JObj [(py ''status'', JStr (py ''ok'')),
                    (py ''received'', JInt (int (length [?entry])))]))
           = ''{"status": "ok", "received": 1}''\<close>
  proof -
    have \<open>encode ''{"status": "ok", "received": 1}'' = ''{"status": "ok", "received": 1}''\<close>
      by code_simp
    then show ?thesis by (simp add: sink_env_def sink_dumps_def)
  qed
  show ?thesis
    unfolding e fst_conv snd_conv b
    by (simp add: sink_env_def file_text_def batch_line_def)
qed

text \<open>
  C9 as stated fails twice. The body \<open>[]\<close> is valid JSON and the sink responds 500, neither
  200 nor 400. And on a host ahead of UTC the batch is stored under the local date
  20250102 while the date in UTC is 20250101.
\<close>

theorem valid_json_not_object_counterexample:
  "read_text sink_env post_list 2 = Inr (py ''[]'')
   \<and> json_loads sink_env (py ''[]'') = Loaded (JArr [])
   \<and> status (fst (log_do_POST sink_env Map.empty post_list)) = 500
   \<and> utc_Ymd sink_env = py ''20250101''
   \<and> snd (log_do_POST sink_env Map.empty post_batch) (py ''dev1_20250101.log'') = None
   \<and> snd (log_do_POST sink_env Map.empty post_batch) (py ''dev1_20250102.log'') \<noteq> None"
proof -
  have p: "log_path post_list = ''/logs'' \<or> log_path post_list = ''/''"
    by (simp add: post_list_def)
  from p post_list_text post_list_loaded
  have "try_handle_logs sink_env Map.empty post_list = process_logs sink_env Map.empty (JArr [])"
    by (intro log_do_POST_parsed[where n = 2 and decoded = "py ''[]''"]) auto
  then have "try_handle_logs sink_env Map.empty post_list = (Inl AttributeError, Map.empty)"
    by (simp add: process_logs_not_dict)
  from log_do_POST_raised[OF p this]
  have s: "status (fst (log_do_POST sink_env Map.empty post_list)) = 500" by simp
  have u: "utc_Ymd sink_env = py ''20250101''" by (simp add: sink_env_def)
  have f: "snd (log_do_POST sink_env Map.empty post_batch) (py ''dev1_20250101.log'') = None
     \<and> snd (log_do_POST sink_env Map.empty post_batch) (py ''dev1_20250102.log'') \<noteq> None"
    unfolding post_batch_handled by (simp add: py_eq_iff)
  from post_list_text post_list_loaded s u f show ?thesis by simp
qed

text \<open>
  C10, as amended. For a POST to \<open>/logs\<close> or \<open>/\<close> whose \<open>Content-Length\<close> is a non-zero
  integer and whose body is read, decodes and parses as a JSON object. If its \<open>logs\<close>
  value, when present, yields JSON objects, the log file can be opened, the record of
  every entry is serialised to a line that can be encoded as UTF-8, and every entry's
  console line is printed, then the sink responds 200 with \<open>received\<close> the number of
  entries, which is 0 without \<open>logs\<close>, and the line persisted for an entry is that of the
  record with \<open>timestamp\<close>, \<open>level\<close>, \<open>component\<close> and \<open>message\<close> taken from the entry, or the
  time of the request, \<open>DEBUG\<close>, the empty string and the empty string where the entry
  lacks them, and with the \<open>device_id\<close> of the batch. Without \<open>device_id\<close> the file is
  \<open>unknown_\<close>, the date and \<open>.log\<close>. If the \<open>logs\<close> value is not iterable, or yields an entry
  that is not a JSON object, the sink responds 500.
\<close>

theorem log_defaults:
  assumes "log_path r = ''/logs'' \<or> log_path r = ''/''"
    and "log_content_length r = Some n" and "n \<noteq> 0"
    and "read_text env r n = Inr decoded"
    and "json_loads env decoded = Loaded (JObj kvs)"
  shows "(\<forall>items lines.
            py_iter (dict_get kvs (py ''logs'') (JArr [])) = Some (map JObj items)
            \<and> open_append env
                (log_file_name env (dict_get kvs (py ''device_id'') (JStr (py ''unknown'')))) = None
            \<and> map (\<lambda>e. json_dumps_unicode env
                  (JObj [(py ''timestamp'', case map_of e (py ''timestamp'') of
                                              Some v \<Rightarrow> v | None \<Rightarrow> JStr (now_isoformat env)),
                         (py ''level'', case map_of e (py ''level'') of
                                          Some v \<Rightarrow> v | None \<Rightarrow> JStr (py ''DEBUG'')),
                         (py ''component'', case map_of e (py ''component'') of
                                              Some v \<Rightarrow> v | None \<Rightarrow> JStr []),
                         (py ''message'', case map_of e (py ''message'') of
                                            Some v \<Rightarrow> v | None \<Rightarrow> JStr []),
                         (py ''device_id'',
                          dict_get kvs (py ''device_id'') (JStr (py ''unknown'')))])) items
                = map Some lines
            \<and> (\<forall>l\<in>set lines. encodable (l @ [10]))
            \<and> (\<forall>e\<in>set items. print_line env (console_line env e) = None) \<longrightarrow>
            status (fst (log_do_POST env fs r)) = 200
            \<and> resp_body (fst (log_do_POST env fs r)) =
                encode (json_dumps env
                  (JObj [(py ''status'', JStr (py ''ok'')),
                         (py ''received'', JInt (int (length items)))]))
            \<and> (map_of kvs (py ''logs'') = None \<longrightarrow> items = [])
            \<and> snd (log_do_POST env fs r) =
                fs(log_file_name env (dict_get kvs (py ''device_id'') (JStr (py ''unknown''))) \<mapsto>
                     file_text fs
                       (log_file_name env (dict_get kvs (py ''device_id'') (JStr (py ''unknown''))))
                     @ concat (map (\<lambda>l. l @ [10]) lines)))
       \<and> (map_of kvs (py ''device_id'') = None \<longrightarrow>
            log_file_name env (dict_get kvs (py ''device_id'') (JStr (py ''unknown'')))
              = py ''unknown_'' @ now_Ymd env @ py ''.log'')
       \<and> (py_iter (dict_get kvs (py ''logs'') (JArr [])) = None
            \<or> (\<exists>entries. py_iter (dict_get kvs (py ''logs'') (JArr [])) = Some entries
                  \<and> (\<exists>e\<in>set entries. \<not> is_dict e)) \<longrightarrow>
            status (fst (log_do_POST env fs r)) = 500)"
proof (intro conjI allI impI)
  fix items lines
  assume h: "py_iter (dict_get kvs (py ''logs'') (JArr [])) = Some (map JObj items)
            \<and> open_append env
                (log_file_name env (dict_get kvs (py ''device_id'') (JStr (py ''unknown'')))) = None
            \<and> map (\<lambda>e. json_dumps_unicode env
                  (JObj [(py ''timestamp'', case map_of e (py ''timestamp'') of
                                              Some v \<Rightarrow> v | None \<Rightarrow> JStr (now_isoformat env)),
                         (py ''level'', case map_of e (py ''level'') of
                                          Some v \<Rightarrow> v | None \<Rightarrow> JStr (py ''DEBUG'')),
                         (py ''component'', case map_of e (py ''component'') of
                                              Some v \<Rightarrow> v | None \<Rightarrow> JStr []),
                         (py ''message'', case map_of e (py ''message'') of
                                            Some v \<Rightarrow> v | None \<Rightarrow> JStr []),
                         (py ''device_id'',
                          dict_get kvs (py ''device_id'') (JStr (py ''unknown'')))])) items
                = map Some lines
            \<and> (\<forall>l\<in>set lines. encodable (l @ [10]))
            \<and> (\<forall>e\<in>set items. print_line env (console_line env e) = None)"
  then have l: "map (\<lambda>e. json_dumps_unicode env
                     (entry_record (dict_get kvs (py ''device_id'') (JStr (py ''unknown'')))
                        (now_isoformat env) e)) items
           = map Some lines"
    by (simp add: entry_record_def dict_get_def)
  from h have i: "py_iter (dict_get kvs (py ''logs'') (JArr [])) = Some (map JObj items)"
    and o: "open_append env
                (log_file_name env (dict_get kvs (py ''device_id'') (JStr (py ''unknown'')))) = None"
    and c: "\<forall>l\<in>set lines. encodable (l @ [10])"
    and q: "\<forall>e\<in>set items. print_line env (console_line env e) = None"
    by simp_all
  note stored = log_do_POST_stored[OF assms i o l c q, of fs]
  show "status (fst (log_do_POST env fs r)) = 200" unfolding stored by simp
  show "resp_body (fst (log_do_POST env fs r)) =
                encode (json_dumps env
                  (JObj [(py ''status'', JStr (py ''ok'')),
                         (py ''received'', JInt (int (length items)))]))"
    unfolding stored by simp
  show "snd (log_do_POST env fs r) =
                fs(log_file_name env (dict_get kvs (py ''device_id'') (JStr (py ''unknown''))) \<mapsto>
                     file_text fs
                       (log_file_name env (dict_get kvs (py ''device_id'') (JStr (py ''unknown''))))
                     @ concat (map (\<lambda>l. l @ [10]) lines))"
    unfolding stored by simp
  assume "map_of kvs (py ''logs'') = None"
  with i show "items = []" by (simp add: dict_get_def)
next
  assume "map_of kvs (py ''device_id'') = None"
  then show "log_file_name env (dict_get kvs (py ''device_id'') (JStr (py ''unknown'')))
              = py ''unknown_'' @ now_Ymd env @ py ''.log''"
    by (simp add: dict_get_def log_file_name_def fmt_def py_def)
next
  assume "py_iter (dict_get kvs (py ''logs'') (JArr [])) = None
            \<or> (\<exists>entries. py_iter (dict_get kvs (py ''logs'') (JArr [])) = Some entries
                  \<and> (\<exists>e\<in>set entries. \<not> is_dict e))"
  from process_logs_raises[OF this, of env fs]
  obtain e fs' where "process_logs env fs (JObj kvs) = (Inl e, fs')" by blast
  moreover from assms have "try_handle_logs env fs r = process_logs env fs (JObj kvs)"
    by (rule log_do_POST_parsed)
  ultimately have "try_handle_logs env fs r = (Inl e, fs')" by simp
  from log_do_POST_raised[OF assms(1) this]
  show "status (fst (log_do_POST env fs r)) = 500" by simp
qed

text \<open>
  C10, witness: the body \<open>{"logs":[{}]}\<close>, with no \<open>device_id\<close> and one entry without
  fields.
\<close>

theorem log_defaults_witness:
  \<open>status (fst (log_do_POST sink_env Map.empty post_bare_entry)) = 200
   \<and> resp_body (fst (log_do_POST sink_env Map.empty post_bare_entry))
       = ''{"status": "ok", "received": 1}''
   \<and> snd (log_do_POST sink_env Map.empty post_bare_entry) (py ''unknown_20250102.log'') =
       Some (py ''{"timestamp": "2025-01-02T01:30:00.000000", "level": "DEBUG", "component": "", "message": "", "device_id": "unknown"}''
             @ [10])\<close>
proof -
  let ?kvs = "[(py ''logs'', JArr [JObj []])]"
  let ?items = "[[]] :: (pystr \<times> json) list list"
  have p: "log_path post_bare_entry = ''/logs'' \<or> log_path post_bare_entry = ''/''"
    by (simp add: post_bare_entry_def)
  have z: "(13::int) \<noteq> 0" by simp
  have d: "dict_get ?kvs (py ''device_id'') (JStr (py ''unknown'')) = JStr (py ''unknown'')"
    by (simp add: dict_get_def py_eq_iff)
  have i: "py_iter (dict_get ?kvs (py ''logs'') (JArr [])) = Some (map JObj ?items)"
    by (simp add: dict_get_def)
  have f: "log_file_name sink_env (JStr (py ''unknown'')) = py ''unknown_20250102.log''"
    by (simp add: log_file_name_def fmt_def sink_env_def py_append)
  have o: "open_append sink_env
             (log_file_name sink_env (dict_get ?kvs (py ''device_id'') (JStr (py ''unknown''))))
           = None"
    by (simp add: sink_env_def)
  have l: "map (\<lambda>e. json_dumps_unicode sink_env
                  (JObj [(py ''timestamp'', case map_of e (py ''timestamp'') of
                                              Some v \<Rightarrow> v | None \<Rightarrow> JStr (now_isoformat sink_env)),
                         (py ''level'', case map_of e (py ''level'') of
                                          Some v \<Rightarrow> v | None \<Rightarrow> JStr (py ''DEBUG'')),
                         (py ''component'', case map_of e (py ''component'') of
                                              Some v \<Rightarrow> v | None \<Rightarrow> JStr []),
                         (py ''message'', case map_of e (py ''message'') of
                                            Some v \<Rightarrow> v | None \<Rightarrow> JStr []),
                         (py ''device_id'',
                          dict_get ?kvs (py ''device_id'') (JStr (py ''unknown'')))])) ?items
                = map Some [py bare_line]"
    unfolding d by (simp add: sink_env_def sink_dumps_unicode_def py_eq_iff)
  have c: "\<forall>l\<in>set [py bare_line]. encodable (l @ [10])"
    by (simp add: py_encodable)
  have q: "\<forall>e\<in>set ?items. print_line sink_env (console_line sink_env e) = None"
    by (simp add: sink_env_def)
  have b: \<open>encode (json_dumps sink_env
             (JObj [(py ''status'', JStr (py ''ok'')),
                    (py ''received'', JInt (int (length ?items)))]))
           = ''{"status": "ok", "received": 1}''\<close>
  proof -
    have \<open>encode ''{"status": "ok", "received": 1}'' = ''{"status": "ok", "received": 1}''\<close>
      by code_simp
    then show ?thesis by (simp add: sink_env_def sink_dumps_def)
  qed
  from log_defaults[OF p conjunct1[OF post_bare_entry_text] z conjunct2[OF post_bare_entry_text]
      post_bare_entry_loaded, of Map.empty] i o l c q
  have "status (fst (log_do_POST sink_env Map.empty post_bare_entry)) = 200
            \<and> resp_body (fst (log_do_POST sink_env Map.empty post_bare_entry)) =
                encode (json_dumps sink_env
                  (JObj [(py ''status'', JStr (py ''ok'')),
                         (py ''received'', JInt (int (length ?items)))]))
            \<and> snd (log_do_POST sink_env Map.empty post_bare_entry) =
                Map.empty(log_file_name sink_env (dict_get ?kvs (py ''device_id'') (JStr (py ''unknown''))) \<mapsto>
                     file_text Map.empty
                       (log_file_name sink_env (dict_get ?kvs (py ''device_id'') (JStr (py ''unknown''))))
                     @ concat (map (\<lambda>l. l @ [10]) [py bare_line]))"
    by blast
  then show ?thesis
    unfolding d f b by (simp add: file_text_def bare_line_def)
qed

text \<open>
  C10 as stated fails: the body \<open>{"logs": null}\<close> parses as a JSON object, and the sink
  responds 500.
\<close>

theorem logs_not_a_list_counterexample:
  "read_text sink_env post_null_logs 14 = Inr (py null_logs_text)
   \<and> json_loads sink_env (py null_logs_text) = Loaded (JObj [(py ''logs'', JNull)])
   \<and> status (fst (log_do_POST sink_env Map.empty post_null_logs)) = 500"
proof -
  have p: "log_path post_null_logs = ''/logs'' \<or> log_path post_null_logs = ''/''"
    by (simp add: post_null_logs_def)
  from p post_null_logs_text post_null_logs_loaded
  have t: "try_handle_logs sink_env Map.empty post_null_logs
             = process_logs sink_env Map.empty (JObj [(py ''logs'', JNull)])"
    by (intro log_do_POST_parsed[where n = 14 and decoded = "py null_logs_text"]) auto
  have "py_iter (dict_get [(py ''logs'', JNull)] (py ''logs'') (JArr [])) = None
        \<or> (\<exists>entries. py_iter (dict_get [(py ''logs'', JNull)] (py ''logs'') (JArr [])) = Some entries
              \<and> (\<exists>e\<in>set entries. \<not> is_dict e))"
    by (simp add: dict_get_def)
  from process_logs_raises[OF this, of sink_env Map.empty] t
  obtain e fs' where "try_handle_logs sink_env Map.empty post_null_logs = (Inl e, fs')"
    by auto
  from log_do_POST_raised[OF p this]
  have "status (fst (log_do_POST sink_env Map.empty post_null_logs)) = 500" by simp
  with post_null_logs_text post_null_logs_loaded show ?thesis by simp
qed

end
